theory Spec2Isabelle
  imports Complex_Main
begin

section \<open>Python values\<close>

text \<open>
  The pose fields of \<^verbatim>\<open>SensorState\<close> and \<^verbatim>\<open>AgentState\<close> are typed \<^verbatim>\<open>Any\<close>, and
  \<^verbatim>\<open>convert_motor_state\<close> returns nested dictionaries. Both live in one type of Python
  values: \<^verbatim>\<open>None\<close>, floats, strings, lists, dictionaries with string keys, the vector
  type \<^verbatim>\<open>magnum.Vector3\<close>, the quaternion type \<^verbatim>\<open>quaternion.quaternion\<close> (scalar part
  first) and one-dimensional float arrays of numpy.

  The code moves float components from one container into another and never computes
  with them, so a float is carried as a \<^typ>\<open>real\<close>; equality of values is equality of
  their contents.
\<close>

datatype pyval =
    PyNone
  | PyFloat real
  | PyStr string
  | PyList "pyval list"
  | PyDict "(string \<times> pyval) list"
  | Vector3 real real real
  | Quaternion real real real real
  | NdArray "real list"

datatype pyerror = TypeError | AttributeError | KeyError | ValueError

subsection \<open>Dictionaries\<close>

text \<open>
  A Python dictionary keeps its keys in insertion order: an association list.
  \<^verbatim>\<open>d[k] = v\<close> replaces the value of a key that is present, in place, and appends a
  new key at the end; \<^verbatim>\<open>d[k]\<close> raises \<^verbatim>\<open>KeyError\<close> on a missing key.
\<close>

definition dict_keys :: "('k \<times> 'v) list \<Rightarrow> 'k list" where
  "dict_keys d = map fst d"

definition dict_getitem :: "('k \<times> 'v) list \<Rightarrow> 'k \<Rightarrow> pyerror + 'v" where
  "dict_getitem d k = (case map_of d k of None \<Rightarrow> Inl KeyError | Some v \<Rightarrow> Inr v)"

fun dict_setitem :: "('k \<times> 'v) list \<Rightarrow> 'k \<Rightarrow> 'v \<Rightarrow> ('k \<times> 'v) list" where
  "dict_setitem [] k v = [(k, v)]"
| "dict_setitem ((k', v') # d) k v =
     (if k' = k then (k, v) # d else (k', v') # dict_setitem d k v)"

subsection \<open>The operations the conversion applies to a pose field\<close>

text \<open>
  \<^verbatim>\<open>list(x)\<close>: the elements that iterating \<open>x\<close> yields. \<^verbatim>\<open>None\<close>, a float and a
  quaternion are not iterable; a string yields its characters, a dictionary its keys, a
  \<^verbatim>\<open>Vector3\<close> its three components.
\<close>

fun py_list :: "pyval \<Rightarrow> pyerror + pyval list" where
  "py_list PyNone = Inl TypeError"
| "py_list (PyFloat _) = Inl TypeError"
| "py_list (PyStr s) = Inr (map (\<lambda>c. PyStr [c]) s)"
| "py_list (PyList xs) = Inr xs"
| "py_list (PyDict kvs) = Inr (map (\<lambda>kv. PyStr (fst kv)) kvs)"
| "py_list (Vector3 x y z) = Inr [PyFloat x, PyFloat y, PyFloat z]"
| "py_list (Quaternion _ _ _ _) = Inl TypeError"
| "py_list (NdArray rs) = Inr (map PyFloat rs)"

text \<open>
  The attributes \<^verbatim>\<open>x.real\<close> and \<^verbatim>\<open>x.imag\<close>. A quaternion has its scalar part and the
  array of its three imaginary components; a float and a float array have them too (the
  imaginary part is zero); every other value here raises \<^verbatim>\<open>AttributeError\<close>.
\<close>

fun getattr_real :: "pyval \<Rightarrow> pyerror + pyval" where
  "getattr_real (PyFloat x) = Inr (PyFloat x)"
| "getattr_real (Quaternion w _ _ _) = Inr (PyFloat w)"
| "getattr_real (NdArray rs) = Inr (NdArray rs)"
| "getattr_real _ = Inl AttributeError"

fun getattr_imag :: "pyval \<Rightarrow> pyerror + pyval" where
  "getattr_imag (PyFloat _) = Inr (PyFloat 0)"
| "getattr_imag (Quaternion _ x y z) = Inr (NdArray [x, y, z])"
| "getattr_imag (NdArray rs) = Inr (NdArray (map (\<lambda>_. 0) rs))"
| "getattr_imag _ = Inl AttributeError"

text \<open>
  \<^verbatim>\<open>np.array(xs)\<close> on a Python list. A list of floats gives the one-dimensional float
  array of these floats. What numpy builds from a list with an element that is not a
  float (another element type, a nested shape, or a \<^verbatim>\<open>ValueError\<close>) depends on its
  type and shape inference; it is the parameter \<open>nd\<close> of the model, and every result
  below holds whatever numpy does there.
\<close>

fun is_float :: "pyval \<Rightarrow> bool" where
  "is_float (PyFloat _) = True"
| "is_float _ = False"

fun the_float :: "pyval \<Rightarrow> real" where
  "the_float (PyFloat x) = x"
| "the_float _ = 0"

type_synonym np_other = "pyval list \<Rightarrow> pyerror + pyval"

definition np_array :: "np_other \<Rightarrow> pyval list \<Rightarrow> pyerror + pyval" where
  "np_array nd xs = (if list_all is_float xs then Inr (NdArray (map the_float xs)) else nd xs)"

text \<open>The expression \<^verbatim>\<open>np.array(list(x.position))\<close>.\<close>

definition position_array :: "np_other \<Rightarrow> pyval \<Rightarrow> pyerror + pyval" where
  "position_array nd p = (case py_list p of Inl e \<Rightarrow> Inl e | Inr xs \<Rightarrow> np_array nd xs)"

text \<open>
  The expression \<^verbatim>\<open>[x.rotation.real] + list(x.rotation.imag)\<close>, evaluated from left to
  right.
\<close>

definition rotation_list :: "pyval \<Rightarrow> pyerror + pyval" where
  "rotation_list r =
     (case getattr_real r of
        Inl e \<Rightarrow> Inl e
      | Inr re \<Rightarrow>
         (case getattr_imag r of
            Inl e \<Rightarrow> Inl e
          | Inr im \<Rightarrow>
             (case py_list im of
                Inl e \<Rightarrow> Inl e
              | Inr ims \<Rightarrow> Inr (PyList (re # ims)))))"

section \<open>The state model\<close>

type_synonym AgentID = string
type_synonym SensorID = string

record SensorState =
  position :: pyval
  rotation :: pyval

record AgentState =
  sensors :: "(SensorID \<times> SensorState) list"
  position :: pyval
  rotation :: pyval
  motor_only_step :: bool

text \<open>
  The constructor that \<^verbatim>\<open>@dataclass\<close> generates for \<^verbatim>\<open>AgentState\<close>:
  \<^verbatim>\<open>motor_only_step\<close> is the one field with a default, \<^verbatim>\<open>False\<close>. An argument
  that the caller leaves out is \<open>None\<close>.
\<close>

definition AgentState_init ::
  "(SensorID \<times> SensorState) list \<Rightarrow> pyval \<Rightarrow> pyval \<Rightarrow> bool option \<Rightarrow> AgentState" where
  "AgentState_init sens pos rot flag =
     \<lparr>sensors = sens, position = pos, rotation = rot,
      motor_only_step = (case flag of None \<Rightarrow> False | Some b \<Rightarrow> b)\<rparr>"

text \<open>
  \<^verbatim>\<open>ProprioceptiveState\<close> and \<^verbatim>\<open>MotorSystemState\<close> are both
  \<^verbatim>\<open>Dict[AgentID, AgentState]\<close>.
\<close>

type_synonym ProprioceptiveState = "(AgentID \<times> AgentState) list"
type_synonym MotorSystemState = "(AgentID \<times> AgentState) list"

section \<open>convert\_motor\_state\<close>

text \<open>
  The method runs on a frame: the object \<^verbatim>\<open>self\<close> and the two dictionaries it builds,
  \<^verbatim>\<open>state_copy\<close> and \<^verbatim>\<open>sensors\<close>. Each loop returns the exception it raised, if any,
  and the frame it stopped with.
\<close>

record frame =
  self :: MotorSystemState
  state_copy :: "(AgentID \<times> pyval) list"
  sensors :: "(SensorID \<times> pyval) list"

text \<open>The loop \<^verbatim>\<open>for sensor_id in agent_state.sensors.keys()\<close>.\<close>

fun sensors_loop :: "np_other \<Rightarrow> AgentState \<Rightarrow> SensorID list \<Rightarrow> frame \<Rightarrow> pyerror option \<times> frame" where
  "sensors_loop nd agent_state [] fr = (None, fr)"
| "sensors_loop nd agent_state (sensor_id # rest) fr =
     (case dict_getitem (AgentState.sensors agent_state) sensor_id of
        Inl e \<Rightarrow> (Some e, fr)
      | Inr sensor_state \<Rightarrow>
         (case position_array nd (SensorState.position sensor_state) of
            Inl e \<Rightarrow> (Some e, fr)
          | Inr p \<Rightarrow>
             (case rotation_list (SensorState.rotation sensor_state) of
                Inl e \<Rightarrow> (Some e, fr)
              | Inr r \<Rightarrow>
                 sensors_loop nd agent_state rest
                   (fr\<lparr>frame.sensors := dict_setitem (frame.sensors fr) sensor_id
                        (PyDict [(''position'', p), (''rotation'', r)])\<rparr>))))"

text \<open>The loop \<^verbatim>\<open>for agent_id in self.keys()\<close>.\<close>

fun agents_loop :: "np_other \<Rightarrow> AgentID list \<Rightarrow> frame \<Rightarrow> pyerror option \<times> frame" where
  "agents_loop nd [] fr = (None, fr)"
| "agents_loop nd (agent_id # rest) fr =
     (case dict_getitem (self fr) agent_id of
        Inl e \<Rightarrow> (Some e, fr)
      | Inr agent_state \<Rightarrow>
         (case sensors_loop nd agent_state (dict_keys (AgentState.sensors agent_state))
                 (fr\<lparr>frame.sensors := []\<rparr>) of
            (Some e, fr1) \<Rightarrow> (Some e, fr1)
          | (None, fr1) \<Rightarrow>
             (case position_array nd (AgentState.position agent_state) of
                Inl e \<Rightarrow> (Some e, fr1)
              | Inr p \<Rightarrow>
                 (case rotation_list (AgentState.rotation agent_state) of
                    Inl e \<Rightarrow> (Some e, fr1)
                  | Inr r \<Rightarrow>
                     agents_loop nd rest
                       (fr1\<lparr>state_copy := dict_setitem (state_copy fr1) agent_id
                            (PyDict [(''position'', p), (''rotation'', r),
                                     (''sensors'', PyDict (frame.sensors fr1))])\<rparr>)))))"

text \<open>
  A call of the method: what it returns or raises, and \<^verbatim>\<open>self\<close> as the call leaves
  it.
\<close>

definition convert_motor_state_call ::
  "np_other \<Rightarrow> MotorSystemState \<Rightarrow> (pyerror + pyval) \<times> MotorSystemState" where
  "convert_motor_state_call nd s =
     (case agents_loop nd (dict_keys s) \<lparr>self = s, state_copy = [], sensors = []\<rparr> of
        (Some e, fr) \<Rightarrow> (Inl e, self fr)
      | (None, fr) \<Rightarrow> (Inr (PyDict (state_copy fr)), self fr))"

definition convert_motor_state :: "np_other \<Rightarrow> MotorSystemState \<Rightarrow> pyerror + pyval" where
  "convert_motor_state nd s = fst (convert_motor_state_call nd s)"

subsection \<open>The function the two loops compute\<close>

text \<open>
  Both loops have one shape: read every key of a source dictionary, convert its value,
  store the result under the same key. \<open>dict_build\<close> is that shape; \<open>sensor_record\<close>
  and \<open>agent_record\<close> are the two conversions, and the loops are shown below to
  compute them.
\<close>

fun dict_build ::
  "('v \<Rightarrow> pyerror + pyval) \<Rightarrow> (string \<times> 'v) list \<Rightarrow> string list \<Rightarrow> (string \<times> pyval) list
     \<Rightarrow> pyerror + (string \<times> pyval) list" where
  "dict_build f src [] acc = Inr acc"
| "dict_build f src (k # ks) acc =
     (case dict_getitem src k of
        Inl e \<Rightarrow> Inl e
      | Inr v \<Rightarrow>
         (case f v of Inl e \<Rightarrow> Inl e | Inr r \<Rightarrow> dict_build f src ks (dict_setitem acc k r)))"

definition sensor_record :: "np_other \<Rightarrow> SensorState \<Rightarrow> pyerror + pyval" where
  "sensor_record nd ss =
     (case position_array nd (SensorState.position ss) of
        Inl e \<Rightarrow> Inl e
      | Inr p \<Rightarrow>
         (case rotation_list (SensorState.rotation ss) of
            Inl e \<Rightarrow> Inl e
          | Inr r \<Rightarrow> Inr (PyDict [(''position'', p), (''rotation'', r)])))"

definition agent_record :: "np_other \<Rightarrow> AgentState \<Rightarrow> pyerror + pyval" where
  "agent_record nd a =
     (case dict_build (sensor_record nd) (AgentState.sensors a)
             (dict_keys (AgentState.sensors a)) [] of
        Inl e \<Rightarrow> Inl e
      | Inr sd \<Rightarrow>
         (case position_array nd (AgentState.position a) of
            Inl e \<Rightarrow> Inl e
          | Inr p \<Rightarrow>
             (case rotation_list (AgentState.rotation a) of
                Inl e \<Rightarrow> Inl e
              | Inr r \<Rightarrow>
                 Inr (PyDict [(''position'', p), (''rotation'', r), (''sensors'', PyDict sd)]))))"

section \<open>What the properties speak of\<close>

subsection \<open>Valid poses\<close>

text \<open>
  A valid pose has a \<^verbatim>\<open>Vector3\<close> as position and a quaternion as rotation; a valid
  state holds valid poses only.
\<close>

fun is_vector3 :: "pyval \<Rightarrow> bool" where
  "is_vector3 (Vector3 _ _ _) = True"
| "is_vector3 _ = False"

fun is_quaternion :: "pyval \<Rightarrow> bool" where
  "is_quaternion (Quaternion _ _ _ _) = True"
| "is_quaternion _ = False"

definition valid_sensor :: "SensorState \<Rightarrow> bool" where
  "valid_sensor ss \<longleftrightarrow>
     is_vector3 (SensorState.position ss) \<and> is_quaternion (SensorState.rotation ss)"

definition valid_agent :: "AgentState \<Rightarrow> bool" where
  "valid_agent a \<longleftrightarrow>
     is_vector3 (AgentState.position a) \<and> is_quaternion (AgentState.rotation a) \<and>
     list_all (\<lambda>kv. valid_sensor (snd kv)) (AgentState.sensors a)"

definition valid_state :: "MotorSystemState \<Rightarrow> bool" where
  "valid_state s \<longleftrightarrow> list_all (\<lambda>kv. valid_agent (snd kv)) s"

text \<open>
  The canonical form of a pose, in the words of the specification: \<open>p\<close> is the sequence
  of the three components of the vector and \<open>r\<close> the four-element list with the scalar
  part of the quaternion first (order WXYZ).
\<close>

fun wxyz_pose :: "pyval \<Rightarrow> pyval \<Rightarrow> pyval \<Rightarrow> pyval \<Rightarrow> bool" where
  "wxyz_pose (Vector3 x y z) (Quaternion w i j k) p r \<longleftrightarrow>
     p = NdArray [x, y, z] \<and> r = PyList [PyFloat w, PyFloat i, PyFloat j, PyFloat k]"
| "wxyz_pose _ _ _ _ \<longleftrightarrow> False"

subsection \<open>Numeric containers and JSON\<close>

text \<open>
  A numeric sequence is a list of floats or a float array; a numeric mapping is a
  dictionary whose values are numeric sequences or numeric mappings.
\<close>

fun numeric_sequence :: "pyval \<Rightarrow> bool" where
  "numeric_sequence (PyList xs) = list_all is_float xs"
| "numeric_sequence (NdArray _) = True"
| "numeric_sequence _ = False"

fun numeric_mapping :: "pyval \<Rightarrow> bool" where
  "numeric_mapping (PyDict kvs) =
     list_all (\<lambda>kv. numeric_sequence (snd kv) \<or> numeric_mapping (snd kv)) kvs"
| "numeric_mapping _ = False"

text \<open>
  JSON documents, and the conversion table of Python's \<^verbatim>\<open>json\<close> module with its
  standard encoder: a dictionary is written as an object, a list as an array, a string,
  a float and \<^verbatim>\<open>None\<close> as themselves, and every other object raises
  \<^verbatim>\<open>TypeError\<close>. A number is read back as the float that was written.
\<close>

datatype json =
    JNull
  | JNumber real
  | JString string
  | JArray "json list"
  | JObject "(string \<times> json) list"

fun sequence_sum :: "('e + 'a) list \<Rightarrow> 'e + 'a list" where
  "sequence_sum [] = Inr []"
| "sequence_sum (Inl e # _) = Inl e"
| "sequence_sum (Inr x # rs) =
     (case sequence_sum rs of Inl e \<Rightarrow> Inl e | Inr xs \<Rightarrow> Inr (x # xs))"

fun json_dumps :: "pyval \<Rightarrow> pyerror + json" where
  "json_dumps PyNone = Inr JNull"
| "json_dumps (PyFloat x) = Inr (JNumber x)"
| "json_dumps (PyStr s) = Inr (JString s)"
| "json_dumps (PyList xs) =
     (case sequence_sum (map json_dumps xs) of Inl e \<Rightarrow> Inl e | Inr js \<Rightarrow> Inr (JArray js))"
| "json_dumps (PyDict kvs) =
     (case sequence_sum
             (map (\<lambda>kv. case json_dumps (snd kv) of Inl e \<Rightarrow> Inl e | Inr j \<Rightarrow> Inr (fst kv, j)) kvs) of
        Inl e \<Rightarrow> Inl e
      | Inr js \<Rightarrow> Inr (JObject js))"
| "json_dumps (Vector3 _ _ _) = Inl TypeError"
| "json_dumps (Quaternion _ _ _ _) = Inl TypeError"
| "json_dumps (NdArray _) = Inl TypeError"

fun json_loads :: "json \<Rightarrow> pyval" where
  "json_loads JNull = PyNone"
| "json_loads (JNumber x) = PyFloat x"
| "json_loads (JString s) = PyStr s"
| "json_loads (JArray js) = PyList (map json_loads js)"
| "json_loads (JObject kvs) = PyDict (map (\<lambda>kv. (fst kv, json_loads (snd kv))) kvs)"

text \<open>
  \<^verbatim>\<open>ndarray.tolist()\<close> applied to every array of a value: what an encoder that knows
  numpy arrays writes in their place.
\<close>

fun ndarray_tolist :: "pyval \<Rightarrow> pyval" where
  "ndarray_tolist (NdArray rs) = PyList (map PyFloat rs)"
| "ndarray_tolist (PyList xs) = PyList (map ndarray_tolist xs)"
| "ndarray_tolist (PyDict kvs) = PyDict (map (\<lambda>kv. (fst kv, ndarray_tolist (snd kv))) kvs)"
| "ndarray_tolist v = v"

subsection \<open>Malformed poses\<close>

text \<open>
  A position supports iteration when \<^verbatim>\<open>list\<close> accepts it; a rotation decomposes when
  it has the attributes \<^verbatim>\<open>real\<close> and \<^verbatim>\<open>imag\<close> and the latter supports iteration.
\<close>

definition iterable :: "pyval \<Rightarrow> bool" where
  "iterable p = (case py_list p of Inl _ \<Rightarrow> False | Inr _ \<Rightarrow> True)"

definition decomposes :: "pyval \<Rightarrow> bool" where
  "decomposes r = (case rotation_list r of Inl _ \<Rightarrow> False | Inr _ \<Rightarrow> True)"

definition malformed_pose :: "pyval \<Rightarrow> pyval \<Rightarrow> bool" where
  "malformed_pose p r \<longleftrightarrow> \<not> iterable p \<or> \<not> decomposes r"

text \<open>
  Weaker conditions on a pose, each about one step of the two expressions: the position
  iterates to floats, of whatever number; the rotation has both attributes; its
  \<^verbatim>\<open>imag\<close> supports iteration.
\<close>

definition float_components :: "pyval \<Rightarrow> bool" where
  "float_components p = (case py_list p of Inl _ \<Rightarrow> False | Inr xs \<Rightarrow> list_all is_float xs)"

definition has_real_imag :: "pyval \<Rightarrow> bool" where
  "has_real_imag r =
     (case getattr_real r of
        Inl _ \<Rightarrow> False
      | Inr _ \<Rightarrow> (case getattr_imag r of Inl _ \<Rightarrow> False | Inr _ \<Rightarrow> True))"

definition imag_iterable :: "pyval \<Rightarrow> bool" where
  "imag_iterable r = (case getattr_imag r of Inl _ \<Rightarrow> False | Inr im \<Rightarrow> iterable im)"

text \<open>
  The exception that evaluating the two expressions of a pose raises, the position
  before the rotation as in the dictionary displays of the source; \<open>None\<close> when both
  evaluate.
\<close>

definition exception_of :: "pyerror + 'a \<Rightarrow> pyerror option" where
  "exception_of x = (case x of Inl e \<Rightarrow> Some e | Inr _ \<Rightarrow> None)"

definition pose_exception :: "np_other \<Rightarrow> pyval \<times> pyval \<Rightarrow> pyerror option" where
  "pose_exception nd pr =
     (case position_array nd (fst pr) of
        Inl e \<Rightarrow> Some e
      | Inr _ \<Rightarrow> exception_of (rotation_list (snd pr)))"

text \<open>
  The poses of a state in the order in which the method evaluates them: the agents in
  the order of the keys of \<^verbatim>\<open>self\<close>, and for each agent its sensors in the order of
  the keys of \<^verbatim>\<open>sensors\<close>, then the agent itself. \<open>first_exception\<close> is the first
  exception in a sequence of evaluations.
\<close>

definition dict_values :: "('k \<times> 'v) list \<Rightarrow> 'v list" where
  "dict_values d = List.map_filter (map_of d) (dict_keys d)"

definition agent_poses :: "AgentState \<Rightarrow> (pyval \<times> pyval) list" where
  "agent_poses a =
     map (\<lambda>ss. (SensorState.position ss, SensorState.rotation ss))
       (dict_values (AgentState.sensors a)) @
     [(AgentState.position a, AgentState.rotation a)]"

definition state_poses :: "MotorSystemState \<Rightarrow> (pyval \<times> pyval) list" where
  "state_poses s = concat (map agent_poses (dict_values s))"

fun first_exception :: "pyerror option list \<Rightarrow> pyerror option" where
  "first_exception [] = None"
| "first_exception (Some e # _) = Some e"
| "first_exception (None # xs) = first_exception xs"

subsection \<open>States that differ in their flags only\<close>

definition same_pose_data :: "AgentState \<Rightarrow> AgentState \<Rightarrow> bool" where
  "same_pose_data a1 a2 \<longleftrightarrow>
     AgentState.sensors a1 = AgentState.sensors a2 \<and>
     AgentState.position a1 = AgentState.position a2 \<and>
     AgentState.rotation a1 = AgentState.rotation a2"

definition equal_except_flags :: "MotorSystemState \<Rightarrow> MotorSystemState \<Rightarrow> bool" where
  "equal_except_flags s1 s2 \<longleftrightarrow>
     list_all2 (\<lambda>p q. fst p = fst q \<and> same_pose_data (snd p) (snd q)) s1 s2"

subsection \<open>Equality of Python values and of states\<close>










subsection \<open>Concrete states\<close>

text \<open>
  The example of the specification: one agent at \<open>(1, 2, 3)\<close> with rotation
  \<open>real = 0, imag = (0, 0, 1)\<close>, and one sensor at \<open>(0, 0.1, 0)\<close> with the identity
  rotation. \<open>example_flagged\<close> is the same state with \<^verbatim>\<open>motor_only_step\<close> set.
\<close>

definition example_sensor :: SensorState where
  "example_sensor =
     \<lparr>SensorState.position = Vector3 0 (1 / 10) 0, SensorState.rotation = Quaternion 1 0 0 0\<rparr>"

definition example_agent :: AgentState where
  "example_agent =
     \<lparr>AgentState.sensors = [(''sensor_id_0'', example_sensor)],
      AgentState.position = Vector3 1 2 3, AgentState.rotation = Quaternion 0 0 0 1,
      AgentState.motor_only_step = False\<rparr>"

definition example_state :: MotorSystemState where
  "example_state = [(''agent_id_0'', example_agent)]"

definition example_flagged :: MotorSystemState where
  "example_flagged = [(''agent_id_0'', example_agent\<lparr>AgentState.motor_only_step := True\<rparr>)]"

definition example_output :: pyval where
  "example_output =
     PyDict
      [(''agent_id_0'',
        PyDict
         [(''position'', NdArray [1, 2, 3]),
          (''rotation'', PyList [PyFloat 0, PyFloat 0, PyFloat 0, PyFloat 1]),
          (''sensors'',
           PyDict
            [(''sensor_id_0'',
              PyDict
               [(''position'', NdArray [0, 1 / 10, 0]),
                (''rotation'', PyList [PyFloat 1, PyFloat 0, PyFloat 0, PyFloat 0])])])])]"





text \<open>
  Malformed states: a position with two components; a position that is \<^verbatim>\<open>None\<close>; and
  an agent whose position is \<^verbatim>\<open>None\<close> and whose sensor has the rotation \<^verbatim>\<open>None\<close>.
\<close>

definition two_defects_state :: MotorSystemState where
  "two_defects_state =
     [(''agent_id_0'',
       example_agent\<lparr>AgentState.sensors :=
         [(''sensor_id_0'', example_sensor\<lparr>SensorState.rotation := PyNone\<rparr>)],
         AgentState.position := PyNone\<rparr>)]"


definition two_component_state :: MotorSystemState where
  "two_component_state =
     [(''agent_id_0'', example_agent\<lparr>AgentState.position := PyList [PyFloat 1, PyFloat 2]\<rparr>)]"

definition none_position_state :: MotorSystemState where
  "none_position_state = [(''agent_id_0'', example_agent\<lparr>AgentState.position := PyNone\<rparr>)]"

text \<open>
  A value for the parameter \<open>nd\<close> to run the concrete states on. It stands for no
  behaviour of numpy: the components of the concrete states are floats, so no run on
  them reaches it.
\<close>

definition np_reject :: np_other where
  "np_reject xs = Inl ValueError"

section \<open>The simulator contract\<close>

text \<open>
  \<^verbatim>\<open>Simulator\<close> is a \<^verbatim>\<open>typing.Protocol\<close>: the sources declare its operations with their
  signatures and docstrings, every body is \<^verbatim>\<open>...\<close>, and no backend implementing them is
  among the sources. The behaviour of the operations is therefore taken from the
  specification of the contract.
\<close>

text \<open>
  Modelled from the spec: the macro-states of a backend, which the protocol does not
  declare. The specification names exactly two, \<^emph>\<open>uninitialized-or-reset\<close> and
  \<^emph>\<open>active\<close>.
\<close>

datatype macro_state = Uninitialized_or_reset | Active

text \<open>
  Modelled from the spec: the state of a simulator, absent from the sources: the
  environment of the backend, its macro-state, and whether \<^verbatim>\<open>close()\<close> has been called.
\<close>

record 'env simulator =
  environment :: 'env
  macro :: macro_state
  closed :: bool

text \<open>
  Modelled from the spec: a backend, absent from the sources. It supplies the initial
  configuration, the observations of an environment, the effect of an action, and the
  effect of an agent or object set-up (\<^verbatim>\<open>initialize_agent\<close>, \<^verbatim>\<open>add_object\<close>,
  \<^verbatim>\<open>remove_all_objects\<close>); \<open>None\<close> is a backend-defined failure.
\<close>

record ('env, 'obs, 'act, 'setup) backend =
  initial_configuration :: 'env
  observe :: "'env \<Rightarrow> 'obs"
  execute :: "'act \<Rightarrow> 'env \<Rightarrow> 'env option"
  set_up :: "'setup \<Rightarrow> 'env \<Rightarrow> 'env option"

datatype sim_error = Simulator_closed | Backend_failure

text \<open>Modelled from the spec: a freshly constructed simulator (no constructor is declared).\<close>

definition new_simulator :: "('env, 'obs, 'act, 'setup) backend \<Rightarrow> 'env simulator" where
  "new_simulator b =
     \<lparr>environment = initial_configuration b, macro = Uninitialized_or_reset, closed = False\<rparr>"

text \<open>
  Modelled from the spec: the body of \<^verbatim>\<open>reset()\<close>, missing from the protocol. The
  backend returns to its initial configuration and the initial observations are
  returned; no operation is valid after \<^verbatim>\<open>close()\<close>.
\<close>

definition reset ::
  "('env, 'obs, 'act, 'setup) backend \<Rightarrow> 'env simulator \<Rightarrow> sim_error + 'obs \<times> 'env simulator" where
  "reset b sim =
     (if closed sim then Inl Simulator_closed
      else Inr (observe b (initial_configuration b),
                sim\<lparr>environment := initial_configuration b, macro := Uninitialized_or_reset\<rparr>))"

text \<open>
  Modelled from the spec: the body of \<^verbatim>\<open>apply_action(action)\<close>, missing from the
  protocol. The action is executed and the resulting observations are returned; the
  backend is active afterwards; an unsupported action fails and changes nothing.
\<close>

definition apply_action ::
  "('env, 'obs, 'act, 'setup) backend \<Rightarrow> 'act \<Rightarrow> 'env simulator
     \<Rightarrow> sim_error + 'obs \<times> 'env simulator" where
  "apply_action b a sim =
     (if closed sim then Inl Simulator_closed
      else (case execute b a (environment sim) of
              None \<Rightarrow> Inl Backend_failure
            | Some env \<Rightarrow> Inr (observe b env, sim\<lparr>environment := env, macro := Active\<rparr>)))"

text \<open>
  Modelled from the spec: the bodies of \<^verbatim>\<open>initialize_agent\<close>, \<^verbatim>\<open>add_object\<close> and
  \<^verbatim>\<open>remove_all_objects\<close>, missing from the protocol, as far as the macro-state goes:
  an explicit agent or object set-up makes the backend active.
\<close>

definition object_setup ::
  "('env, 'obs, 'act, 'setup) backend \<Rightarrow> 'setup \<Rightarrow> 'env simulator \<Rightarrow> sim_error + 'env simulator" where
  "object_setup b u sim =
     (if closed sim then Inl Simulator_closed
      else (case set_up b u (environment sim) of
              None \<Rightarrow> Inl Backend_failure
            | Some env \<Rightarrow> Inr (sim\<lparr>environment := env, macro := Active\<rparr>)))"

text \<open>
  Modelled from the spec: the query \<^verbatim>\<open>observations\<close>, missing from the protocol: the
  current sensor observations.
\<close>

definition observations ::
  "('env, 'obs, 'act, 'setup) backend \<Rightarrow> 'env simulator \<Rightarrow> sim_error + 'obs" where
  "observations b sim =
     (if closed sim then Inl Simulator_closed else Inr (observe b (environment sim)))"

text \<open>
  Modelled from the spec: the body of \<^verbatim>\<open>close()\<close>, missing from the protocol: the
  terminal transition, idempotent.
\<close>

definition close :: "'env simulator \<Rightarrow> 'env simulator" where
  "close sim = sim\<lparr>closed := True\<rparr>"

text \<open>
  Modelled from the spec: sequences of operations on one simulator. A failed operation
  aborts its step and leaves the simulator as it was.
\<close>

datatype ('act, 'setup) operation = Apply_action 'act | Object_setup 'setup | Reset | Close

fun perform ::
  "('env, 'obs, 'act, 'setup) backend \<Rightarrow> ('act, 'setup) operation \<Rightarrow> 'env simulator
     \<Rightarrow> 'env simulator" where
  "perform b (Apply_action a) sim =
     (case apply_action b a sim of Inl _ \<Rightarrow> sim | Inr (_, sim') \<Rightarrow> sim')"
| "perform b (Object_setup u) sim =
     (case object_setup b u sim of Inl _ \<Rightarrow> sim | Inr sim' \<Rightarrow> sim')"
| "perform b Reset sim = (case reset b sim of Inl _ \<Rightarrow> sim | Inr (_, sim') \<Rightarrow> sim')"
| "perform b Close sim = close sim"

fun run ::
  "('env, 'obs, 'act, 'setup) backend \<Rightarrow> ('act, 'setup) operation list \<Rightarrow> 'env simulator
     \<Rightarrow> 'env simulator" where
  "run b [] sim = sim"
| "run b (op # ops) sim = run b ops (perform b op sim)"

text \<open>
  A backend to run the model on: the environment counts what has been done to it, and
  is its own observation.
\<close>

definition counting_backend :: "(nat, nat, nat, unit) backend" where
  "counting_backend =
     \<lparr>initial_configuration = 0, observe = (\<lambda>env. env),
      execute = (\<lambda>a env. Some (env + a)), set_up = (\<lambda>u env. Some (Suc env))\<rparr>"

definition counting_operations :: "(nat, unit) operation list" where
  "counting_operations = [Apply_action 2, Object_setup (), Reset, Apply_action 3]"

section \<open>Dictionaries: lookup after update\<close>

lemma map_of_dict_setitem: "map_of (dict_setitem d k v) = (map_of d)(k \<mapsto> v)"
  by (induction d k v rule: dict_setitem.induct) auto

lemma keys_dict_setitem: "set (dict_keys (dict_setitem d k v)) = insert k (set (dict_keys d))"
  by (induction d k v rule: dict_setitem.induct) (auto simp: dict_keys_def)

lemma distinct_dict_setitem:
  "distinct (dict_keys d) \<Longrightarrow> distinct (dict_keys (dict_setitem d k v))"
proof (induction d k v rule: dict_setitem.induct)
  case (1 k v)
  then show ?case by (simp add: dict_keys_def)
next
  case (2 k' v' d k v)
  have "set (map fst (dict_setitem d k v)) = insert k (set (map fst d))"
    using keys_dict_setitem [of d k v] by (simp add: dict_keys_def)
  with 2 show ?case by (auto simp: dict_keys_def)
qed

lemma dict_getitem_Inr: "dict_getitem d k = Inr v \<longleftrightarrow> map_of d k = Some v"
  by (simp add: dict_getitem_def split: option.splits)

lemma dict_getitem_Inl: "dict_getitem d k = Inl e \<longleftrightarrow> map_of d k = None \<and> e = KeyError"
  by (auto simp: dict_getitem_def split: option.splits)

lemma map_of_keys: "k \<in> set (dict_keys d) \<Longrightarrow> \<exists>v. map_of d k = Some v"
  by (induction d) (auto simp: dict_keys_def)

lemma keys_map_of: "map_of d k = Some v \<Longrightarrow> k \<in> set (dict_keys d)"
  unfolding dict_keys_def by (metis domI dom_map_of_conv_image_fst set_map)

section \<open>What a dictionary built key by key holds\<close>

lemma dict_build_keys:
  "dict_build f src ks acc = Inr d \<Longrightarrow> set (dict_keys d) = set (dict_keys acc) \<union> set ks"
  by (induction ks arbitrary: acc) (auto simp: keys_dict_setitem split: sum.splits)

lemma dict_build_distinct:
  "dict_build f src ks acc = Inr d \<Longrightarrow> distinct (dict_keys acc) \<Longrightarrow> distinct (dict_keys d)"
  by (induction ks arbitrary: acc) (auto simp: distinct_dict_setitem split: sum.splits)

lemma dict_build_other:
  "dict_build f src ks acc = Inr d \<Longrightarrow> k \<notin> set ks \<Longrightarrow> map_of d k = map_of acc k"
  by (induction ks arbitrary: acc) (auto simp: map_of_dict_setitem split: sum.splits)

lemma dict_build_lookup:
  "dict_build f src ks acc = Inr d \<Longrightarrow> k \<in> set ks \<Longrightarrow>
     \<exists>v r. map_of src k = Some v \<and> f v = Inr r \<and> map_of d k = Some r"
proof (induction ks arbitrary: acc)
  case Nil
  then show ?case by simp
next
  case (Cons k' ks)
  from Cons.prems(1) obtain v r where
    v: "map_of src k' = Some v" and r: "f v = Inr r" and
    rest: "dict_build f src ks (dict_setitem acc k' r) = Inr d"
    by (auto simp: dict_getitem_Inr split: sum.splits)
  show ?case
  proof (cases "k \<in> set ks")
    case True
    from Cons.IH [OF rest True] show ?thesis .
  next
    case False
    with Cons.prems(2) have "k = k'" by simp
    moreover from dict_build_other [OF rest False]
    have "map_of d k = map_of (dict_setitem acc k' r) k" .
    ultimately show ?thesis using v r by (simp add: map_of_dict_setitem)
  qed
qed

lemma dict_build_succeeds:
  "(\<And>k. k \<in> set ks \<Longrightarrow> \<exists>v r. map_of src k = Some v \<and> f v = Inr r) \<Longrightarrow>
     \<exists>d. dict_build f src ks acc = Inr d"
proof (induction ks arbitrary: acc)
  case Nil
  show ?case by simp
next
  case (Cons k ks)
  from Cons.prems [of k] obtain v r where "map_of src k = Some v" "f v = Inr r" by auto
  moreover have "\<exists>d. dict_build f src ks (dict_setitem acc k r) = Inr d"
    by (rule Cons.IH) (rule Cons.prems, simp)
  ultimately show ?case by (simp add: dict_getitem_def)
qed

lemma dict_build_fails:
  "k \<in> set ks \<Longrightarrow> map_of src k = Some v \<Longrightarrow> f v = Inl e \<Longrightarrow>
     \<exists>e'. dict_build f src ks acc = Inl e'"
  by (induction ks arbitrary: acc) (auto simp: dict_getitem_def split: sum.splits option.splits)


lemma dict_build_values:
  assumes "dict_build f src ks [] = Inr d" and "(k, r) \<in> set d"
  shows "\<exists>v. map_of src k = Some v \<and> f v = Inr r"
proof -
  from dict_build_distinct [OF assms(1)] have "distinct (map fst d)" by (simp add: dict_keys_def)
  with assms(2) have m: "map_of d k = Some r" by simp
  from assms(2) have "k \<in> set (dict_keys d)" by (force simp: dict_keys_def)
  with dict_build_keys [OF assms(1)] have "k \<in> set ks" by (simp add: dict_keys_def)
  from dict_build_lookup [OF assms(1) this] m show ?thesis by auto
qed

section \<open>The loops compute the records\<close>

lemma sensors_loop_self [simp]: "self (snd (sensors_loop nd a ks fr)) = self fr"
  by (induction ks arbitrary: fr) (simp_all split: sum.splits)

lemma sensors_loop_state_copy [simp]: "state_copy (snd (sensors_loop nd a ks fr)) = state_copy fr"
  by (induction ks arbitrary: fr) (simp_all split: sum.splits)

lemma sensors_loop_frameD:
  "sensors_loop nd a ks fr = (r, fr') \<Longrightarrow> self fr' = self fr \<and> state_copy fr' = state_copy fr"
  using sensors_loop_self [of nd a ks fr] sensors_loop_state_copy [of nd a ks fr] by simp

lemma sensors_loop_error:
  "fst (sensors_loop nd a ks fr) =
     (case dict_build (sensor_record nd) (AgentState.sensors a) ks (frame.sensors fr) of
        Inl e \<Rightarrow> Some e | Inr _ \<Rightarrow> None)"
  by (induction ks arbitrary: fr) (auto simp: sensor_record_def split: sum.splits)

lemma sensors_loop_sensors:
  "dict_build (sensor_record nd) (AgentState.sensors a) ks (frame.sensors fr) = Inr sd \<Longrightarrow>
     frame.sensors (snd (sensors_loop nd a ks fr)) = sd"
  by (induction ks arbitrary: fr) (auto simp: sensor_record_def split: sum.splits)

lemma sensors_loop_buildD:
  "sensors_loop nd a ks fr = (r, fr') \<Longrightarrow>
     (case dict_build (sensor_record nd) (AgentState.sensors a) ks (frame.sensors fr) of
        Inl e \<Rightarrow> r = Some e
      | Inr sd \<Rightarrow> r = None \<and> frame.sensors fr' = sd)"
  using sensors_loop_error [of nd a ks fr] sensors_loop_sensors [of nd a ks fr]
  by (auto split: sum.splits)

lemma agents_loop_self [simp]: "self (snd (agents_loop nd ks fr)) = self fr"
  by (induction ks arbitrary: fr)
    (auto split: sum.splits prod.splits option.splits dest: sensors_loop_frameD)

lemma agents_loop_error:
  "fst (agents_loop nd ks fr) =
     (case dict_build (agent_record nd) (self fr) ks (state_copy fr) of
        Inl e \<Rightarrow> Some e | Inr _ \<Rightarrow> None)"
proof (induction ks arbitrary: fr)
  case Nil
  show ?case by simp
next
  case (Cons k ks)
  show ?case
  proof (cases "dict_getitem (self fr) k")
    case (Inl e)
    then show ?thesis by simp
  next
    case (Inr a)
    obtain r1 fr1 where s:
      "sensors_loop nd a (dict_keys (AgentState.sensors a)) (fr\<lparr>frame.sensors := []\<rparr>) = (r1, fr1)"
      by (cases "sensors_loop nd a (dict_keys (AgentState.sensors a)) (fr\<lparr>frame.sensors := []\<rparr>)")
    from sensors_loop_frameD [OF s]
    have f1: "self fr1 = self fr" "state_copy fr1 = state_copy fr" by simp_all
    from sensors_loop_buildD [OF s] Inr s f1 Cons.IH show ?thesis
      by (auto simp: agent_record_def split: sum.splits option.splits)
  qed
qed

lemma agents_loop_state_copy:
  "dict_build (agent_record nd) (self fr) ks (state_copy fr) = Inr d \<Longrightarrow>
     state_copy (snd (agents_loop nd ks fr)) = d"
proof (induction ks arbitrary: fr)
  case Nil
  then show ?case by simp
next
  case (Cons k ks)
  show ?case
  proof (cases "dict_getitem (self fr) k")
    case (Inl e)
    with Cons.prems show ?thesis by simp
  next
    case (Inr a)
    obtain r1 fr1 where s:
      "sensors_loop nd a (dict_keys (AgentState.sensors a)) (fr\<lparr>frame.sensors := []\<rparr>) = (r1, fr1)"
      by (cases "sensors_loop nd a (dict_keys (AgentState.sensors a)) (fr\<lparr>frame.sensors := []\<rparr>)")
    from sensors_loop_frameD [OF s]
    have f1: "self fr1 = self fr" "state_copy fr1 = state_copy fr" by simp_all
    from sensors_loop_buildD [OF s] Inr s f1 Cons.IH Cons.prems show ?thesis
      by (auto simp: agent_record_def split: sum.splits option.splits)
  qed
qed

lemma convert_motor_state_build:
  "convert_motor_state nd s =
     (case dict_build (agent_record nd) s (dict_keys s) [] of
        Inl e \<Rightarrow> Inl e | Inr d \<Rightarrow> Inr (PyDict d))"
proof -
  let ?fr = "\<lparr>self = s, state_copy = [], frame.sensors = []\<rparr>"
  obtain r fr' where a: "agents_loop nd (dict_keys s) ?fr = (r, fr')"
    by (cases "agents_loop nd (dict_keys s) ?fr")
  from agents_loop_error [of nd "dict_keys s" ?fr] agents_loop_state_copy [of nd ?fr "dict_keys s"] a
  show ?thesis
    by (auto simp: convert_motor_state_def convert_motor_state_call_def split: sum.splits)
qed

lemma convert_motor_state_call_self: "snd (convert_motor_state_call nd s) = s"
proof -
  let ?fr = "\<lparr>self = s, state_copy = [], frame.sensors = []\<rparr>"
  obtain r fr' where a: "agents_loop nd (dict_keys s) ?fr = (r, fr')"
    by (cases "agents_loop nd (dict_keys s) ?fr")
  from agents_loop_self [of nd "dict_keys s" ?fr] a have "self fr' = s" by simp
  with a show ?thesis
    by (simp add: convert_motor_state_call_def split: option.splits)
qed

section \<open>The shape of the output\<close>

lemma sensor_record_Inr:
  "sensor_record nd ss = Inr rec \<longleftrightarrow>
     (\<exists>p r. position_array nd (SensorState.position ss) = Inr p \<and>
            rotation_list (SensorState.rotation ss) = Inr r \<and>
            rec = PyDict [(''position'', p), (''rotation'', r)])"
  by (auto simp: sensor_record_def split: sum.splits)

lemma agent_record_Inr:
  "agent_record nd a = Inr rec \<longleftrightarrow>
     (\<exists>sd p r.
        dict_build (sensor_record nd) (AgentState.sensors a) (dict_keys (AgentState.sensors a)) [] = Inr sd \<and>
        position_array nd (AgentState.position a) = Inr p \<and>
        rotation_list (AgentState.rotation a) = Inr r \<and>
        rec = PyDict [(''position'', p), (''rotation'', r), (''sensors'', PyDict sd)])"
  by (auto simp: agent_record_def split: sum.splits)

lemma dict_build_all:
  assumes "dict_build f src (dict_keys src) [] = Inr d"
  shows "distinct (dict_keys d)" and "set (dict_keys d) = set (dict_keys src)"
    and "map_of src k = Some v \<Longrightarrow> \<exists>r. f v = Inr r \<and> map_of d k = Some r"
proof -
  from dict_build_distinct [OF assms] show "distinct (dict_keys d)" by (simp add: dict_keys_def)
  from dict_build_keys [OF assms] show "set (dict_keys d) = set (dict_keys src)"
    by (simp add: dict_keys_def)
  assume "map_of src k = Some v"
  with dict_build_lookup [OF assms keys_map_of, of k v]
  show "\<exists>r. f v = Inr r \<and> map_of d k = Some r" by auto
qed

lemma sensors_shape:
  assumes "dict_build (sensor_record nd) src (dict_keys src) [] = Inr sd"
  shows "distinct (dict_keys sd) \<and> set (dict_keys sd) = set (dict_keys src) \<and>
     (\<forall>sensor_id ss. map_of src sensor_id = Some ss \<longrightarrow>
        (\<exists>p r. map_of sd sensor_id = Some (PyDict [(''position'', p), (''rotation'', r)]) \<and>
           position_array nd (SensorState.position ss) = Inr p \<and>
           rotation_list (SensorState.rotation ss) = Inr r))"
  using dict_build_all [OF assms] by (fastforce simp: sensor_record_Inr)

lemma convert_motor_state_dict:
  assumes "convert_motor_state nd s = Inr out"
  shows "\<exists>d. out = PyDict d \<and> dict_build (agent_record nd) s (dict_keys s) [] = Inr d"
  using assms by (auto simp: convert_motor_state_build split: sum.splits)

lemma convert_motor_state_agent:
  assumes "dict_build (agent_record nd) s (dict_keys s) [] = Inr d"
    and "map_of s agent_id = Some a"
  shows "\<exists>p r sd.
     map_of d agent_id =
       Some (PyDict [(''position'', p), (''rotation'', r), (''sensors'', PyDict sd)]) \<and>
     position_array nd (AgentState.position a) = Inr p \<and>
     rotation_list (AgentState.rotation a) = Inr r \<and>
     dict_build (sensor_record nd) (AgentState.sensors a)
       (dict_keys (AgentState.sensors a)) [] = Inr sd"
proof -
  from dict_build_all(3) [OF assms] obtain rec where "agent_record nd a = Inr rec"
    and "map_of d agent_id = Some rec" by auto
  then show ?thesis by (auto simp: agent_record_Inr)
qed

lemma convert_motor_state_shape_aux:
  assumes "convert_motor_state nd s = Inr out"
  shows "\<exists>d. out = PyDict d \<and> distinct (dict_keys d) \<and> set (dict_keys d) = set (dict_keys s) \<and>
     (\<forall>agent_id a. map_of s agent_id = Some a \<longrightarrow>
        (\<exists>p r sd.
           map_of d agent_id =
             Some (PyDict [(''position'', p), (''rotation'', r), (''sensors'', PyDict sd)]) \<and>
           position_array nd (AgentState.position a) = Inr p \<and>
           rotation_list (AgentState.rotation a) = Inr r \<and>
           distinct (dict_keys sd) \<and> set (dict_keys sd) = set (dict_keys (AgentState.sensors a)) \<and>
           (\<forall>sensor_id ss. map_of (AgentState.sensors a) sensor_id = Some ss \<longrightarrow>
              (\<exists>p' r'.
                 map_of sd sensor_id = Some (PyDict [(''position'', p'), (''rotation'', r')]) \<and>
                 position_array nd (SensorState.position ss) = Inr p' \<and>
                 rotation_list (SensorState.rotation ss) = Inr r'))))"
proof -
  from convert_motor_state_dict [OF assms] obtain d
    where out: "out = PyDict d" and d: "dict_build (agent_record nd) s (dict_keys s) [] = Inr d"
    by blast
  have "\<exists>p r sd.
           map_of d agent_id =
             Some (PyDict [(''position'', p), (''rotation'', r), (''sensors'', PyDict sd)]) \<and>
           position_array nd (AgentState.position a) = Inr p \<and>
           rotation_list (AgentState.rotation a) = Inr r \<and>
           distinct (dict_keys sd) \<and> set (dict_keys sd) = set (dict_keys (AgentState.sensors a)) \<and>
           (\<forall>sensor_id ss. map_of (AgentState.sensors a) sensor_id = Some ss \<longrightarrow>
              (\<exists>p' r'.
                 map_of sd sensor_id = Some (PyDict [(''position'', p'), (''rotation'', r')]) \<and>
                 position_array nd (SensorState.position ss) = Inr p' \<and>
                 rotation_list (SensorState.rotation ss) = Inr r'))"
    if a: "map_of s agent_id = Some a" for agent_id a
  proof -
    from convert_motor_state_agent [OF d a] obtain p r sd where
      m: "map_of d agent_id =
         Some (PyDict [(''position'', p), (''rotation'', r), (''sensors'', PyDict sd)])"
      and p: "position_array nd (AgentState.position a) = Inr p"
      and r: "rotation_list (AgentState.rotation a) = Inr r"
      and sd: "dict_build (sensor_record nd) (AgentState.sensors a)
         (dict_keys (AgentState.sensors a)) [] = Inr sd"
      by blast
    from sensors_shape [OF sd] m p r show ?thesis by blast
  qed
  with out dict_build_all(1,2) [OF d] show ?thesis by blast
qed

section \<open>Valid states convert\<close>

lemma valid_pose_wxyz:
  assumes "is_vector3 p" and "is_quaternion r"
  shows "\<exists>p' r'. position_array nd p = Inr p' \<and> rotation_list r = Inr r' \<and> wxyz_pose p r p' r'"
proof -
  from assms(1) obtain x y z where "p = Vector3 x y z" by (cases p) auto
  moreover from assms(2) obtain w i j k where "r = Quaternion w i j k" by (cases r) auto
  ultimately show ?thesis
    by (simp add: position_array_def rotation_list_def np_array_def)
qed

lemma valid_sensor_record: "valid_sensor ss \<Longrightarrow> \<exists>rec. sensor_record nd ss = Inr rec"
  using valid_pose_wxyz [of "SensorState.position ss" "SensorState.rotation ss" nd]
  by (auto simp: valid_sensor_def sensor_record_def)

lemma list_all_map_of:
  "list_all (\<lambda>kv. P (snd kv)) d \<Longrightarrow> map_of d k = Some v \<Longrightarrow> P v"
  by (force simp: list_all_iff dest: map_of_SomeD)

lemma dict_build_valid:
  assumes "list_all (\<lambda>kv. P (snd kv)) src" and "\<And>v. P v \<Longrightarrow> \<exists>r. f v = Inr r"
  shows "\<exists>d. dict_build f src (dict_keys src) [] = Inr d"
proof (rule dict_build_succeeds)
  fix k assume "k \<in> set (dict_keys src)"
  then obtain v where v: "map_of src k = Some v" using map_of_keys by fastforce
  with assms(1) have "P v" by (rule list_all_map_of)
  with assms(2) v show "\<exists>v r. map_of src k = Some v \<and> f v = Inr r" by blast
qed

lemma valid_agent_record: "valid_agent a \<Longrightarrow> \<exists>rec. agent_record nd a = Inr rec"
proof -
  assume a: "valid_agent a"
  then have "\<exists>sd. dict_build (sensor_record nd) (AgentState.sensors a)
                    (dict_keys (AgentState.sensors a)) [] = Inr sd"
    by (intro dict_build_valid [where P = valid_sensor] valid_sensor_record)
       (simp_all add: valid_agent_def)
  moreover from a valid_pose_wxyz [of "AgentState.position a" "AgentState.rotation a" nd]
  have "\<exists>p r. position_array nd (AgentState.position a) = Inr p \<and>
      rotation_list (AgentState.rotation a) = Inr r"
    by (auto simp: valid_agent_def)
  ultimately show ?thesis by (auto simp: agent_record_Inr)
qed

lemma valid_state_converts:
  "valid_state s \<Longrightarrow> \<exists>d. convert_motor_state nd s = Inr (PyDict d)"
proof -
  assume "valid_state s"
  then have "\<exists>d. dict_build (agent_record nd) s (dict_keys s) [] = Inr d"
    by (intro dict_build_valid [where P = valid_agent] valid_agent_record)
       (simp_all add: valid_state_def)
  then show ?thesis by (auto simp: convert_motor_state_build)
qed

lemma valid_pose_result:
  assumes "is_vector3 p" and "is_quaternion r"
    and "position_array nd p = Inr p'" and "rotation_list r = Inr r'"
  shows "wxyz_pose p r p' r'"
  using valid_pose_wxyz [OF assms(1,2), of nd] assms(3,4) by auto

section \<open>The concrete states, evaluated\<close>

lemmas convert_eval =
  convert_motor_state_def convert_motor_state_call_def dict_keys_def dict_getitem_def
  position_array_def rotation_list_def np_array_def

lemma example_converts: "convert_motor_state np_reject example_state = Inr example_output"
  by (simp add: convert_eval example_state_def example_agent_def example_sensor_def
      example_output_def)

lemma example_flagged_converts: "convert_motor_state np_reject example_flagged = Inr example_output"
  by (simp add: convert_eval example_flagged_def example_agent_def example_sensor_def
      example_output_def)

lemma two_component_converts:
  "convert_motor_state np_reject two_component_state =
     Inr (PyDict
           [(''agent_id_0'',
             PyDict
              [(''position'', NdArray [1, 2]),
               (''rotation'', PyList [PyFloat 0, PyFloat 0, PyFloat 0, PyFloat 1]),
               (''sensors'',
                PyDict
                 [(''sensor_id_0'',
                   PyDict
                    [(''position'', NdArray [0, 1 / 10, 0]),
                     (''rotation'', PyList [PyFloat 1, PyFloat 0, PyFloat 0, PyFloat 0])])])])])"
  by (simp add: convert_eval two_component_state_def example_agent_def example_sensor_def)

lemma none_position_raises: "convert_motor_state np_reject none_position_state = Inl TypeError"
  by (simp add: convert_eval none_position_state_def example_agent_def example_sensor_def)

section \<open>JSON: what the standard encoder writes and reads back\<close>

lemma sequence_sum_roundtrip:
  assumes "\<And>x. x \<in> set xs \<Longrightarrow> \<exists>j. json_dumps x = Inr j \<and> json_loads j = x"
  shows "\<exists>js. sequence_sum (map json_dumps xs) = Inr js \<and> map json_loads js = xs"
  using assms
proof (induction xs)
  case Nil
  show ?case by simp
next
  case (Cons x xs)
  from Cons.prems [of x] obtain j where "json_dumps x = Inr j" "json_loads j = x" by auto
  moreover from Cons.IH Cons.prems obtain js
    where "sequence_sum (map json_dumps xs) = Inr js" "map json_loads js = xs" by auto
  ultimately show ?case by simp
qed

lemma sequence_sum_items_roundtrip:
  assumes "\<And>kv. kv \<in> set kvs \<Longrightarrow> \<exists>j. json_dumps (snd kv) = Inr j \<and> json_loads j = snd kv"
  shows "\<exists>js. sequence_sum
            (map (\<lambda>kv. case json_dumps (snd kv) of Inl e \<Rightarrow> Inl e | Inr j \<Rightarrow> Inr (fst kv, j)) kvs)
          = Inr js \<and>
        map (\<lambda>kv. (fst kv, json_loads (snd kv))) js = kvs"
  using assms
proof (induction kvs)
  case Nil
  show ?case by simp
next
  case (Cons kv kvs)
  from Cons.prems [of kv] obtain j where "json_dumps (snd kv) = Inr j" "json_loads j = snd kv"
    by auto
  moreover from Cons.IH Cons.prems obtain js where
    "sequence_sum
        (map (\<lambda>kv. case json_dumps (snd kv) of Inl e \<Rightarrow> Inl e | Inr j \<Rightarrow> Inr (fst kv, j)) kvs)
      = Inr js"
    "map (\<lambda>kv. (fst kv, json_loads (snd kv))) js = kvs" by auto
  ultimately show ?case by (cases kv) simp
qed

lemma float_roundtrip:
  "is_float x \<Longrightarrow> ndarray_tolist x = x \<and> json_dumps x = Inr (JNumber (the_float x)) \<and>
     json_loads (JNumber (the_float x)) = x"
  by (cases x) simp_all

lemma numeric_sequence_roundtrip:
  assumes "numeric_sequence v"
  shows "\<exists>j. json_dumps (ndarray_tolist v) = Inr j \<and> json_loads j = ndarray_tolist v"
proof (cases v)
  case (PyList xs)
  with assms have fl: "\<forall>x \<in> set xs. is_float x" by (simp add: list_all_iff)
  then have "map ndarray_tolist xs = xs" by (simp add: float_roundtrip map_idI)
  moreover from fl have "\<exists>js. sequence_sum (map json_dumps xs) = Inr js \<and> map json_loads js = xs"
    by (intro sequence_sum_roundtrip) (metis float_roundtrip)
  ultimately show ?thesis using PyList by auto
next
  case (NdArray rs)
  have "\<exists>js. sequence_sum (map json_dumps (map PyFloat rs)) = Inr js \<and>
      map json_loads js = map PyFloat rs"
    by (intro sequence_sum_roundtrip) auto
  with NdArray show ?thesis by auto
qed (use assms in simp_all)

lemma numeric_mapping_roundtrip:
  "numeric_mapping v \<Longrightarrow>
     \<exists>j. json_dumps (ndarray_tolist v) = Inr j \<and> json_loads j = ndarray_tolist v"
proof (induction v)
  case (PyDict kvs)
  let ?kvs' = "map (\<lambda>kv. (fst kv, ndarray_tolist (snd kv))) kvs"
  have "\<exists>j. json_dumps (snd kv') = Inr j \<and> json_loads j = snd kv'" if "kv' \<in> set ?kvs'" for kv'
  proof -
    from that obtain kv where kv: "kv \<in> set kvs" and eq: "kv' = (fst kv, ndarray_tolist (snd kv))"
      by auto
    from PyDict.prems kv have "numeric_sequence (snd kv) \<or> numeric_mapping (snd kv)"
      by (simp add: list_all_iff)
    then have "\<exists>j. json_dumps (ndarray_tolist (snd kv)) = Inr j \<and>
        json_loads j = ndarray_tolist (snd kv)"
    proof
      assume "numeric_sequence (snd kv)"
      then show ?thesis by (rule numeric_sequence_roundtrip)
    next
      assume "numeric_mapping (snd kv)"
      moreover have "snd kv \<in> Basic_BNFs.snds kv" by (cases kv) simp
      ultimately show ?thesis using PyDict.IH kv by blast
    qed
    with eq show ?thesis by simp
  qed
  from sequence_sum_items_roundtrip [of ?kvs', OF this] show ?case by auto
qed simp_all

lemma sequence_sum_Inl:
  "Inl e \<in> set rs \<Longrightarrow> \<exists>e'. sequence_sum rs = Inl e'"
  by (induction rs rule: sequence_sum.induct) (auto split: sum.splits)

lemma sequence_sum_InlD: "sequence_sum rs = Inl e \<Longrightarrow> Inl e \<in> set rs"
  by (induction rs rule: sequence_sum.induct) (auto split: sum.splits)

lemma in_map_sumD:
  "Inl e \<in> set (map f xs) \<Longrightarrow> \<exists>x \<in> set xs. f x = Inl e"
  by (induction xs) auto

lemma json_dumps_TypeError: "json_dumps v = Inl e \<Longrightarrow> e = TypeError"
proof (induction v arbitrary: e)
  case (PyList xs)
  from PyList.prems have "sequence_sum (map json_dumps xs) = Inl e"
    by (simp split: sum.splits)
  then have "Inl e \<in> set (map json_dumps xs)" by (rule sequence_sum_InlD)
  then have "\<exists>x \<in> set xs. json_dumps x = Inl e" by (rule in_map_sumD)
  then obtain x where x: "x \<in> set xs" "json_dumps x = Inl e" by (rule bexE)
  from x show ?case by (rule PyList.IH)
next
  case (PyDict kvs)
  let ?f = "\<lambda>kv. case json_dumps (snd kv) of Inl e \<Rightarrow> Inl e | Inr j \<Rightarrow> Inr (fst kv, j)"
  from PyDict.prems have "sequence_sum (map ?f kvs) = Inl e"
    by (simp split: sum.splits)
  then have "Inl e \<in> set (map ?f kvs)" by (rule sequence_sum_InlD)
  then have "\<exists>kv \<in> set kvs. ?f kv = Inl e" by (rule in_map_sumD)
  then obtain kv where kv: "kv \<in> set kvs" and fk: "?f kv = Inl e" by (rule bexE)
  from fk have d: "json_dumps (snd kv) = Inl e" by (cases "json_dumps (snd kv)") simp_all
  have s: "snd kv \<in> Basic_BNFs.snds kv" by (cases kv) simp
  from kv s d show ?case by (rule PyDict.IH)
qed simp_all

lemma json_dumps_dict_fails:
  assumes "(k, v) \<in> set kvs" and "json_dumps v = Inl e"
  shows "json_dumps (PyDict kvs) = Inl TypeError"
proof -
  let ?f = "\<lambda>kv. case json_dumps (snd kv) of Inl e \<Rightarrow> Inl e | Inr j \<Rightarrow> Inr (fst kv, j)"
  from assms(2) have "?f (k, v) = Inl e" by simp
  moreover from assms(1) have "?f (k, v) \<in> ?f ` set kvs" by (rule imageI)
  ultimately have "Inl e \<in> set (map ?f kvs)" by simp
  then have "\<exists>e'. sequence_sum (map ?f kvs) = Inl e'" by (rule sequence_sum_Inl)
  then obtain e' where "sequence_sum (map ?f kvs) = Inl e'" by (rule exE)
  then have "json_dumps (PyDict kvs) = Inl e'" by simp
  with json_dumps_TypeError [of "PyDict kvs" e'] show ?thesis by simp
qed

section \<open>Valid states give numeric mappings\<close>

lemma dict_build_list_all:
  assumes "dict_build f src ks [] = Inr d"
    and "list_all (\<lambda>kv. P (snd kv)) src"
    and "\<And>v r. P v \<Longrightarrow> f v = Inr r \<Longrightarrow> Q r"
  shows "list_all (\<lambda>kv. Q (snd kv)) d"
proof -
  have "Q (snd kv)" if "kv \<in> set d" for kv
  proof -
    from that have "(fst kv, snd kv) \<in> set d" by simp
    from dict_build_values [OF assms(1) this] obtain v
      where "map_of src (fst kv) = Some v" "f v = Inr (snd kv)" by blast
    with assms(2,3) list_all_map_of [of P src "fst kv" v] show ?thesis by blast
  qed
  then show ?thesis by (simp add: list_all_iff)
qed

lemma wxyz_pose_numeric: "wxyz_pose p r p' r' \<Longrightarrow> numeric_sequence p' \<and> numeric_sequence r'"
  by (cases "(p, r, p', r')" rule: wxyz_pose.cases) simp_all

lemma valid_sensor_numeric:
  assumes "valid_sensor ss" and "sensor_record nd ss = Inr rec"
  shows "numeric_mapping rec"
proof -
  from assms(2) obtain p r where
    p: "position_array nd (SensorState.position ss) = Inr p"
    and r: "rotation_list (SensorState.rotation ss) = Inr r"
    and rec: "rec = PyDict [(''position'', p), (''rotation'', r)]"
    by (auto simp: sensor_record_Inr)
  from assms(1) p r have "wxyz_pose (SensorState.position ss) (SensorState.rotation ss) p r"
    by (auto simp: valid_sensor_def intro: valid_pose_result)
  with rec show ?thesis by (simp add: wxyz_pose_numeric)
qed

lemma valid_agent_numeric:
  assumes "valid_agent a" and "agent_record nd a = Inr rec"
  shows "numeric_mapping rec"
proof -
  from assms(2) obtain sd p r where
    sd: "dict_build (sensor_record nd) (AgentState.sensors a)
           (dict_keys (AgentState.sensors a)) [] = Inr sd"
    and p: "position_array nd (AgentState.position a) = Inr p"
    and r: "rotation_list (AgentState.rotation a) = Inr r"
    and rec: "rec = PyDict [(''position'', p), (''rotation'', r), (''sensors'', PyDict sd)]"
    by (auto simp: agent_record_Inr)
  from assms(1) p r have "wxyz_pose (AgentState.position a) (AgentState.rotation a) p r"
    by (auto simp: valid_agent_def intro: valid_pose_result)
  then have "numeric_sequence p" "numeric_sequence r" by (simp_all add: wxyz_pose_numeric)
  moreover from assms(1) have "list_all (\<lambda>kv. valid_sensor (snd kv)) (AgentState.sensors a)"
    by (simp add: valid_agent_def)
  with sd have "list_all (\<lambda>kv. numeric_mapping (snd kv)) sd"
    by (rule dict_build_list_all) (rule valid_sensor_numeric)
  then have "numeric_mapping (PyDict sd)" by (simp add: list_all_iff)
  ultimately show ?thesis using rec by simp
qed

lemma valid_state_numeric:
  assumes "valid_state s" and "convert_motor_state nd s = Inr out"
  shows "numeric_mapping out"
proof -
  from convert_motor_state_dict [OF assms(2)] obtain d
    where out: "out = PyDict d" and d: "dict_build (agent_record nd) s (dict_keys s) [] = Inr d"
    by blast
  from assms(1) have "list_all (\<lambda>kv. valid_agent (snd kv)) s" by (simp add: valid_state_def)
  with d have "list_all (\<lambda>kv. numeric_mapping (snd kv)) d"
    by (rule dict_build_list_all) (rule valid_agent_numeric)
  with out show ?thesis by (simp add: list_all_iff)
qed

lemma valid_state_not_json:
  assumes "valid_state s" and "s \<noteq> []" and "convert_motor_state nd s = Inr out"
  shows "json_dumps out = Inl TypeError"
proof -
  from convert_motor_state_dict [OF assms(3)] obtain d
    where out: "out = PyDict d" and d: "dict_build (agent_record nd) s (dict_keys s) [] = Inr d"
    by blast
  from assms(2) obtain k a0 where "k \<in> set (dict_keys s)"
    by (cases s) (auto simp: dict_keys_def)
  then obtain a where a: "map_of s k = Some a" using map_of_keys by fastforce
  with assms(1) have va: "valid_agent a" unfolding valid_state_def by (rule list_all_map_of)
  from convert_motor_state_agent [OF d a] obtain p r sd where
    m: "map_of d k = Some (PyDict [(''position'', p), (''rotation'', r), (''sensors'', PyDict sd)])"
    and p: "position_array nd (AgentState.position a) = Inr p"
    and r: "rotation_list (AgentState.rotation a) = Inr r"
    by blast
  from va p r have "wxyz_pose (AgentState.position a) (AgentState.rotation a) p r"
    by (auto simp: valid_agent_def intro: valid_pose_result)
  then obtain rs where "p = NdArray rs"
    by (cases "(AgentState.position a, AgentState.rotation a, p, r)" rule: wxyz_pose.cases) simp_all
  then have "json_dumps (PyDict [(''position'', p), (''rotation'', r), (''sensors'', PyDict sd)])
      = Inl TypeError"
    by simp
  moreover from m have
    "(k, PyDict [(''position'', p), (''rotation'', r), (''sensors'', PyDict sd)]) \<in> set d"
    by (rule map_of_SomeD)
  ultimately show ?thesis using out json_dumps_dict_fails by blast
qed

section \<open>Which exceptions a call raises\<close>

lemma py_list_error: "py_list p = Inl e \<Longrightarrow> e = TypeError"
  by (cases p) simp_all

lemma getattr_real_error: "getattr_real r = Inl e \<Longrightarrow> e = AttributeError"
  by (cases r) simp_all

lemma getattr_imag_error: "getattr_imag r = Inl e \<Longrightarrow> e = AttributeError"
  by (cases r) simp_all

lemma rotation_list_error: "rotation_list r = Inl e \<Longrightarrow> e = AttributeError \<or> e = TypeError"
  by (auto simp: rotation_list_def split: sum.splits
      dest: py_list_error getattr_real_error getattr_imag_error)

lemma position_array_error:
  "position_array nd p = Inl e \<Longrightarrow> e = TypeError \<or> (\<exists>xs. nd xs = Inl e)"
  by (auto simp: position_array_def np_array_def split: sum.splits if_splits dest: py_list_error)


lemma malformed_pose_fails:
  assumes "malformed_pose p r" and "position_array nd p = Inr p'"
  shows "\<exists>e. rotation_list r = Inl e"
proof -
  from assms(2) have "iterable p"
    by (auto simp: iterable_def position_array_def split: sum.splits)
  with assms(1) have "\<not> decomposes r" by (simp add: malformed_pose_def)
  then show ?thesis by (cases "rotation_list r") (simp_all add: decomposes_def)
qed

lemma malformed_sensor_record:
  assumes "malformed_pose (SensorState.position ss) (SensorState.rotation ss)"
  shows "\<exists>e. sensor_record nd ss = Inl e"
proof (cases "position_array nd (SensorState.position ss)")
  case (Inl e)
  then show ?thesis by (simp add: sensor_record_def)
next
  case (Inr p)
  from malformed_pose_fails [OF assms Inr] Inr show ?thesis
    by (auto simp: sensor_record_def)
qed

lemma malformed_agent_record:
  assumes "malformed_pose (AgentState.position a) (AgentState.rotation a) \<or>
     (\<exists>sensor_id ss. map_of (AgentState.sensors a) sensor_id = Some ss \<and>
        malformed_pose (SensorState.position ss) (SensorState.rotation ss))"
  shows "\<exists>e. agent_record nd a = Inl e"
proof (cases "agent_record nd a")
  case (Inl e)
  then show ?thesis by blast
next
  case (Inr rec)
  then obtain sd p r where
    sd: "dict_build (sensor_record nd) (AgentState.sensors a)
           (dict_keys (AgentState.sensors a)) [] = Inr sd"
    and p: "position_array nd (AgentState.position a) = Inr p"
    and r: "rotation_list (AgentState.rotation a) = Inr r"
    by (auto simp: agent_record_Inr)
  from assms show ?thesis
  proof
    assume "malformed_pose (AgentState.position a) (AgentState.rotation a)"
    from malformed_pose_fails [OF this p] r show ?thesis by simp
  next
    assume "\<exists>sensor_id ss. map_of (AgentState.sensors a) sensor_id = Some ss \<and>
        malformed_pose (SensorState.position ss) (SensorState.rotation ss)"
    then obtain sensor_id ss where ss: "map_of (AgentState.sensors a) sensor_id = Some ss"
      and m: "malformed_pose (SensorState.position ss) (SensorState.rotation ss)" by blast
    from dict_build_all(3) [OF sd ss] obtain rec' where "sensor_record nd ss = Inr rec'" by blast
    with malformed_sensor_record [OF m, of nd] show ?thesis by simp
  qed
qed

section \<open>States that agree on their pose data, and equal dictionaries\<close>

lemma agent_record_same_pose_data:
  "same_pose_data a1 a2 \<Longrightarrow> agent_record nd a1 = agent_record nd a2"
  by (simp add: same_pose_data_def agent_record_def cong: sum.case_cong)

lemma dict_getitem_related:
  assumes "list_all2 (\<lambda>p q. fst p = fst q \<and> f (snd p) = f (snd q)) s1 s2"
  shows "(case dict_getitem s1 k of Inl e \<Rightarrow> Inl e | Inr v \<Rightarrow> f v) =
         (case dict_getitem s2 k of Inl e \<Rightarrow> Inl e | Inr v \<Rightarrow> f v)"
  using assms
  by (induction s1 s2 rule: list_all2_induct) (auto simp: dict_getitem_def)

lemma dict_build_related:
  assumes "list_all2 (\<lambda>p q. fst p = fst q \<and> f (snd p) = f (snd q)) s1 s2"
  shows "dict_build f s1 ks acc = dict_build f s2 ks acc"
proof (induction ks arbitrary: acc)
  case Nil
  show ?case by simp
next
  case (Cons k ks)
  from dict_getitem_related [OF assms, of k] Cons.IH show ?case
    by (auto split: sum.splits)
qed

lemma equal_except_flags_keys: "equal_except_flags s1 s2 \<Longrightarrow> dict_keys s1 = dict_keys s2"
  unfolding equal_except_flags_def dict_keys_def
  by (induction s1 s2 rule: list_all2_induct) auto

section \<open>The simulator contract: closed simulators and reset\<close>

lemma perform_closed:
  "closed (perform b op sim) \<longleftrightarrow> closed sim \<or> op = Close"
  by (cases op)
    (auto simp: apply_action_def object_setup_def reset_def close_def split: option.splits)

lemma run_not_closed:
  "Close \<notin> set ops \<Longrightarrow> \<not> closed sim \<Longrightarrow> \<not> closed (run b ops sim)"
proof (induction ops arbitrary: sim)
  case Nil
  then show ?case by simp
next
  case (Cons op ops)
  from Cons.prems have "op \<noteq> Close" and rest: "Close \<notin> set ops" by auto
  with Cons.prems(2) have "\<not> closed (perform b op sim)" by (simp add: perform_closed)
  with rest have "\<not> closed (run b ops (perform b op sim))" by (rule Cons.IH)
  then show ?case by simp
qed

lemma reset_open:
  "\<not> closed sim \<Longrightarrow>
     reset b sim = Inr (observe b (initial_configuration b), new_simulator b)"
  by (cases sim) (simp add: reset_def new_simulator_def)

lemma perform_on_closed: "closed sim \<Longrightarrow> perform b op sim = sim"
  by (cases op; cases sim)
    (simp_all add: apply_action_def object_setup_def reset_def close_def)

lemma perform_to_reset:
  assumes "macro sim = Active" and "macro (perform b op sim) = Uninitialized_or_reset"
  shows "op = Reset"
  using assms
  by (cases op)
    (auto simp: apply_action_def object_setup_def close_def split: option.splits if_splits)

lemma closed_operations_fail:
  assumes "closed sim"
  shows "reset b sim = Inl Simulator_closed" and "apply_action b a sim = Inl Simulator_closed"
    and "object_setup b u sim = Inl Simulator_closed"
    and "observations b sim = Inl Simulator_closed"
  using assms by (simp_all add: reset_def apply_action_def object_setup_def observations_def)

section \<open>The first exception in the order of evaluation\<close>

lemma first_exception_append:
  "first_exception (xs @ ys) =
     (case first_exception xs of Some e \<Rightarrow> Some e | None \<Rightarrow> first_exception ys)"
  by (induction xs rule: first_exception.induct) simp_all

lemma first_exception_single: "first_exception [x] = x"
  by (cases x) simp_all

lemma first_exception_concat:
  "first_exception (map g (concat xss)) =
     first_exception (map (\<lambda>xs. first_exception (map g xs)) xss)"
proof (induction xss)
  case Nil
  show ?case by simp
next
  case (Cons xs xss)
  then show ?case
    by (cases "first_exception (map g xs)") (simp_all add: first_exception_append)
qed

lemma dict_build_exception:
  "set ks \<subseteq> set (dict_keys src) \<Longrightarrow>
     exception_of (dict_build f src ks acc) =
       first_exception (map (\<lambda>v. exception_of (f v)) (List.map_filter (map_of src) ks))"
proof (induction ks arbitrary: acc)
  case Nil
  show ?case by (simp add: exception_of_def map_filter_simps)
next
  case (Cons k ks)
  from Cons.prems have "k \<in> set (dict_keys src)" by simp
  then obtain v where v: "map_of src k = Some v" using map_of_keys by fastforce
  from Cons.prems have sub: "set ks \<subseteq> set (dict_keys src)" by simp
  show ?case
  proof (cases "f v")
    case (Inl e)
    with v show ?thesis by (simp add: dict_getitem_def exception_of_def map_filter_simps)
  next
    case (Inr r)
    with v Cons.IH [OF sub, of "dict_setitem acc k r"] show ?thesis
      by (simp add: dict_getitem_def exception_of_def map_filter_simps)
  qed
qed

lemma sensor_record_exception:
  "exception_of (sensor_record nd ss) =
     pose_exception nd (SensorState.position ss, SensorState.rotation ss)"
  by (simp add: sensor_record_def pose_exception_def exception_of_def split: sum.splits)

lemma agent_record_exception:
  "exception_of (agent_record nd a) = first_exception (map (pose_exception nd) (agent_poses a))"
proof -
  let ?b = "dict_build (sensor_record nd) (AgentState.sensors a)
              (dict_keys (AgentState.sensors a)) []"
  let ?fs = "first_exception
      (map (\<lambda>ss. pose_exception nd (SensorState.position ss, SensorState.rotation ss))
         (dict_values (AgentState.sensors a)))"
  have b: "exception_of ?b = ?fs"
    by (simp add: dict_build_exception dict_values_def sensor_record_exception)
  have p: "first_exception (map (pose_exception nd) (agent_poses a)) =
      (case ?fs of
         Some e \<Rightarrow> Some e
       | None \<Rightarrow> pose_exception nd (AgentState.position a, AgentState.rotation a))"
    by (simp add: agent_poses_def comp_def first_exception_append first_exception_single
        split: option.splits)
  show ?thesis
  proof (cases ?b)
    case (Inl e)
    with b have "?fs = Some e" by (simp add: exception_of_def)
    with Inl p show ?thesis by (simp add: agent_record_def exception_of_def)
  next
    case (Inr sd)
    with b have "?fs = None" by (simp add: exception_of_def)
    with Inr p show ?thesis
      by (simp add: agent_record_def exception_of_def pose_exception_def split: sum.splits)
  qed
qed

lemma convert_motor_state_exception:
  "exception_of (convert_motor_state nd s) =
     first_exception (map (pose_exception nd) (state_poses s))"
proof -
  have "exception_of (convert_motor_state nd s) =
      exception_of (dict_build (agent_record nd) s (dict_keys s) [])"
    by (simp add: convert_motor_state_build exception_of_def split: sum.splits)
  also have "\<dots> = first_exception (map (\<lambda>a. exception_of (agent_record nd a)) (dict_values s))"
    by (simp add: dict_build_exception dict_values_def)
  also have "\<dots> =
      first_exception
        (map (\<lambda>xs. first_exception (map (pose_exception nd) xs)) (map agent_poses (dict_values s)))"
    by (simp add: agent_record_exception comp_def)
  also have "\<dots> = first_exception (map (pose_exception nd) (state_poses s))"
    by (simp only: state_poses_def first_exception_concat)
  finally show ?thesis .
qed

lemma decomposes_iff: "decomposes r \<longleftrightarrow> has_real_imag r \<and> imag_iterable r"
  by (simp add: decomposes_def has_real_imag_def imag_iterable_def iterable_def rotation_list_def
      split: sum.splits)

lemma not_iterable_exception: "\<not> iterable p \<Longrightarrow> pose_exception nd (p, r) = Some TypeError"
  by (cases "py_list p") (auto simp: iterable_def pose_exception_def position_array_def
      dest: py_list_error)

lemma float_components_exception:
  assumes "float_components p"
  shows "pose_exception nd (p, r) = exception_of (rotation_list r)"
proof -
  from assms obtain xs where "py_list p = Inr xs" "list_all is_float xs"
    by (auto simp: float_components_def split: sum.splits)
  then show ?thesis by (simp add: pose_exception_def position_array_def np_array_def)
qed

lemma no_real_imag_exception:
  "\<not> has_real_imag r \<Longrightarrow> exception_of (rotation_list r) = Some AttributeError"
  by (auto simp: has_real_imag_def rotation_list_def exception_of_def split: sum.splits
      dest: getattr_real_error getattr_imag_error)

lemma imag_not_iterable_exception:
  "has_real_imag r \<Longrightarrow> \<not> imag_iterable r \<Longrightarrow> exception_of (rotation_list r) = Some TypeError"
  by (auto simp: has_real_imag_def imag_iterable_def iterable_def rotation_list_def exception_of_def
      split: sum.splits dest: py_list_error)

lemma decomposes_exception:
  "has_real_imag r \<Longrightarrow> imag_iterable r \<Longrightarrow> exception_of (rotation_list r) = None"
  using decomposes_iff [of r] by (simp add: decomposes_def exception_of_def split: sum.splits)

section \<open>Equal states give equal records\<close>


















section \<open>The properties\<close>

text \<open>
  Claim C9. Constructing an \<^verbatim>\<open>AgentState\<close> without supplying \<^verbatim>\<open>motor_only_step\<close>
  yields \<^verbatim>\<open>motor_only_step = False\<close>: unless the flag is given, a state is a normal
  step.
\<close>

theorem AgentState_default_motor_only_step:
  "AgentState.motor_only_step (AgentState_init sens pos rot None) = False"
  by (simp add: AgentState_init_def)

text \<open>
  Claim C3. \<^verbatim>\<open>convert_motor_state\<close> has no side effect on its input: whether the call
  returns or raises, \<^verbatim>\<open>self\<close> is afterwards the mapping it was before, with every
  \<^verbatim>\<open>AgentState\<close> and \<^verbatim>\<open>SensorState\<close> in it (their position, rotation, sensors and
  \<^verbatim>\<open>motor_only_step\<close>) unchanged.
\<close>

theorem convert_motor_state_leaves_self:
  "snd (convert_motor_state_call nd s) = s"
  by (rule convert_motor_state_call_self)

text \<open>
  Claim C1. For every state whose positions are vectors of three components and whose
  rotations are quaternions, \<^verbatim>\<open>convert_motor_state\<close> returns, and for each agent and each
  of its sensors the record it returns has as \<^verbatim>\<open>rotation\<close> the four-element list
  \<open>[real, imag[0], imag[1], imag[2]]\<close> (scalar part first, order WXYZ) and as
  \<^verbatim>\<open>position\<close> the sequence of the three components of the vector.
\<close>

theorem convert_motor_state_wxyz:
  assumes "valid_state s" and "map_of s agent_id = Some a"
  shows "\<exists>d p r sd.
     convert_motor_state nd s = Inr (PyDict d) \<and>
     map_of d agent_id =
       Some (PyDict [(''position'', p), (''rotation'', r), (''sensors'', PyDict sd)]) \<and>
     wxyz_pose (AgentState.position a) (AgentState.rotation a) p r \<and>
     (\<forall>sensor_id ss. map_of (AgentState.sensors a) sensor_id = Some ss \<longrightarrow>
        (\<exists>p' r'.
           map_of sd sensor_id = Some (PyDict [(''position'', p'), (''rotation'', r')]) \<and>
           wxyz_pose (SensorState.position ss) (SensorState.rotation ss) p' r'))"
proof -
  from valid_state_converts [OF assms(1)] obtain d
    where c: "convert_motor_state nd s = Inr (PyDict d)" by blast
  from convert_motor_state_dict [OF c]
  have d: "dict_build (agent_record nd) s (dict_keys s) [] = Inr d" by simp
  from assms have va: "valid_agent a"
    unfolding valid_state_def by (rule list_all_map_of)
  from convert_motor_state_agent [OF d assms(2)] obtain p r sd where
    m: "map_of d agent_id =
          Some (PyDict [(''position'', p), (''rotation'', r), (''sensors'', PyDict sd)])"
    and p: "position_array nd (AgentState.position a) = Inr p"
    and r: "rotation_list (AgentState.rotation a) = Inr r"
    and sd: "dict_build (sensor_record nd) (AgentState.sensors a)
         (dict_keys (AgentState.sensors a)) [] = Inr sd"
    by blast
  note sens = sensors_shape [OF sd]
  from va p r have w: "wxyz_pose (AgentState.position a) (AgentState.rotation a) p r"
    by (auto simp: valid_agent_def intro: valid_pose_result)
  have "\<exists>p' r'.
           map_of sd sensor_id = Some (PyDict [(''position'', p'), (''rotation'', r')]) \<and>
           wxyz_pose (SensorState.position ss) (SensorState.rotation ss) p' r'"
    if ss: "map_of (AgentState.sensors a) sensor_id = Some ss" for sensor_id ss
  proof -
    from va have "list_all (\<lambda>kv. valid_sensor (snd kv)) (AgentState.sensors a)"
      by (simp add: valid_agent_def)
    from this ss have "valid_sensor ss" by (rule list_all_map_of)
    moreover from sens ss obtain p' r' where
      "map_of sd sensor_id = Some (PyDict [(''position'', p'), (''rotation'', r')])"
      "position_array nd (SensorState.position ss) = Inr p'"
      "rotation_list (SensorState.rotation ss) = Inr r'"
      by blast
    ultimately show ?thesis
      by (auto simp: valid_sensor_def intro: valid_pose_result)
  qed
  with c m w show ?thesis by blast
qed

text \<open>
  The example of the specification is an instance: the agent's rotation comes out as
  \<open>[0, 0, 0, 1]\<close> and the sensor's as \<open>[1, 0, 0, 0]\<close>.
\<close>

theorem convert_motor_state_wxyz_example:
  "valid_state example_state \<and>
   map_of example_state ''agent_id_0'' = Some example_agent \<and>
   (\<exists>d sd.
      convert_motor_state np_reject example_state = Inr (PyDict d) \<and>
      map_of d ''agent_id_0'' =
        Some (PyDict
               [(''position'', NdArray [1, 2, 3]),
                (''rotation'', PyList [PyFloat 0, PyFloat 0, PyFloat 0, PyFloat 1]),
                (''sensors'', PyDict sd)]) \<and>
      map_of sd ''sensor_id_0'' =
        Some (PyDict
               [(''position'', NdArray [0, 1 / 10, 0]),
                (''rotation'', PyList [PyFloat 1, PyFloat 0, PyFloat 0, PyFloat 0])]))"
proof -
  have v: "valid_state example_state"
    by (simp add: valid_state_def valid_agent_def valid_sensor_def example_state_def
        example_agent_def example_sensor_def)
  have m: "map_of example_state ''agent_id_0'' = Some example_agent"
    by (simp add: example_state_def)
  from convert_motor_state_wxyz [OF v m, of np_reject] obtain d p r sd where
    d: "convert_motor_state np_reject example_state = Inr (PyDict d)"
    and a: "map_of d ''agent_id_0'' =
       Some (PyDict [(''position'', p), (''rotation'', r), (''sensors'', PyDict sd)])"
    and w: "wxyz_pose (AgentState.position example_agent) (AgentState.rotation example_agent) p r"
    and s: "\<forall>sensor_id ss. map_of (AgentState.sensors example_agent) sensor_id = Some ss \<longrightarrow>
        (\<exists>p' r'.
           map_of sd sensor_id = Some (PyDict [(''position'', p'), (''rotation'', r')]) \<and>
           wxyz_pose (SensorState.position ss) (SensorState.rotation ss) p' r')"
    by blast
  from w have pr: "p = NdArray [1, 2, 3]" "r = PyList [PyFloat 0, PyFloat 0, PyFloat 0, PyFloat 1]"
    by (simp_all add: example_agent_def)
  have "map_of (AgentState.sensors example_agent) ''sensor_id_0'' = Some example_sensor"
    by (simp add: example_agent_def)
  with s obtain p' r' where
    "map_of sd ''sensor_id_0'' = Some (PyDict [(''position'', p'), (''rotation'', r')])"
    "wxyz_pose (SensorState.position example_sensor) (SensorState.rotation example_sensor) p' r'"
    by blast
  then have "map_of sd ''sensor_id_0'' =
        Some (PyDict
               [(''position'', NdArray [0, 1 / 10, 0]),
                (''rotation'', PyList [PyFloat 1, PyFloat 0, PyFloat 0, PyFloat 0])])"
    by (simp add: example_sensor_def)
  with v m d a pr show ?thesis by blast
qed

text \<open>
  Claim C6. The output of \<^verbatim>\<open>convert_motor_state\<close> is a new mapping with the agent
  identifiers of the input as its keys; the record of each agent has exactly the three
  fields \<^verbatim>\<open>position\<close>, \<^verbatim>\<open>rotation\<close> and \<^verbatim>\<open>sensors\<close>; \<^verbatim>\<open>sensors\<close> is a mapping with
  the sensor identifiers of that agent as its keys, and each of its entries is a record
  with exactly the fields \<^verbatim>\<open>position\<close> and \<^verbatim>\<open>rotation\<close>, computed from the
  \<^verbatim>\<open>SensorState\<close> by the expressions that compute the agent's from the
  \<^verbatim>\<open>AgentState\<close>.
\<close>

theorem convert_motor_state_shape:
  assumes "convert_motor_state nd s = Inr out"
  shows "\<exists>d. out = PyDict d \<and> distinct (dict_keys d) \<and> set (dict_keys d) = set (dict_keys s) \<and>
     (\<forall>agent_id a. map_of s agent_id = Some a \<longrightarrow>
        (\<exists>p r sd.
           map_of d agent_id =
             Some (PyDict [(''position'', p), (''rotation'', r), (''sensors'', PyDict sd)]) \<and>
           position_array nd (AgentState.position a) = Inr p \<and>
           rotation_list (AgentState.rotation a) = Inr r \<and>
           distinct (dict_keys sd) \<and> set (dict_keys sd) = set (dict_keys (AgentState.sensors a)) \<and>
           (\<forall>sensor_id ss. map_of (AgentState.sensors a) sensor_id = Some ss \<longrightarrow>
              (\<exists>p' r'.
                 map_of sd sensor_id = Some (PyDict [(''position'', p'), (''rotation'', r')]) \<and>
                 position_array nd (SensorState.position ss) = Inr p' \<and>
                 rotation_list (SensorState.rotation ss) = Inr r'))))"
  using assms by (rule convert_motor_state_shape_aux)

theorem convert_motor_state_shape_example:
  "convert_motor_state np_reject example_state = Inr example_output \<and>
   (\<exists>d. example_output = PyDict d \<and> distinct (dict_keys d) \<and>
      set (dict_keys d) = set (dict_keys example_state) \<and>
      (\<exists>p r sd.
         map_of d ''agent_id_0'' =
           Some (PyDict [(''position'', p), (''rotation'', r), (''sensors'', PyDict sd)]) \<and>
         set (dict_keys sd) = set (dict_keys (AgentState.sensors example_agent)) \<and>
         (\<exists>p' r'.
            map_of sd ''sensor_id_0'' = Some (PyDict [(''position'', p'), (''rotation'', r')]))))"
proof -
  have m: "map_of example_state ''agent_id_0'' = Some example_agent"
    by (simp add: example_state_def)
  have ms: "map_of (AgentState.sensors example_agent) ''sensor_id_0'' = Some example_sensor"
    by (simp add: example_agent_def)
  from convert_motor_state_shape [OF example_converts] obtain d where
    d: "example_output = PyDict d" "distinct (dict_keys d)"
      "set (dict_keys d) = set (dict_keys example_state)"
    and a: "\<forall>agent_id a. map_of example_state agent_id = Some a \<longrightarrow>
        (\<exists>p r sd.
           map_of d agent_id =
             Some (PyDict [(''position'', p), (''rotation'', r), (''sensors'', PyDict sd)]) \<and>
           position_array np_reject (AgentState.position a) = Inr p \<and>
           rotation_list (AgentState.rotation a) = Inr r \<and>
           distinct (dict_keys sd) \<and> set (dict_keys sd) = set (dict_keys (AgentState.sensors a)) \<and>
           (\<forall>sensor_id ss. map_of (AgentState.sensors a) sensor_id = Some ss \<longrightarrow>
              (\<exists>p' r'.
                 map_of sd sensor_id = Some (PyDict [(''position'', p'), (''rotation'', r')]) \<and>
                 position_array np_reject (SensorState.position ss) = Inr p' \<and>
                 rotation_list (SensorState.rotation ss) = Inr r')))"
    by blast
  from a m obtain p r sd where
    rec: "map_of d ''agent_id_0'' =
       Some (PyDict [(''position'', p), (''rotation'', r), (''sensors'', PyDict sd)])"
    and k: "set (dict_keys sd) = set (dict_keys (AgentState.sensors example_agent))"
    and s: "\<forall>sensor_id ss. map_of (AgentState.sensors example_agent) sensor_id = Some ss \<longrightarrow>
              (\<exists>p' r'.
                 map_of sd sensor_id = Some (PyDict [(''position'', p'), (''rotation'', r')]) \<and>
                 position_array np_reject (SensorState.position ss) = Inr p' \<and>
                 rotation_list (SensorState.rotation ss) = Inr r')"
    by blast
  from s ms obtain p' r' where
    "map_of sd ''sensor_id_0'' = Some (PyDict [(''position'', p'), (''rotation'', r')])"
    by blast
  with example_converts d rec k show ?thesis by blast
qed

text \<open>
  Claim C2, as stated: the output contains only mappings of primitive numeric sequences,
  and serializing it to JSON and deserializing it yields an equal structure. On the
  example of the specification the output holds the positions as numpy arrays, and the
  standard JSON encoder raises \<^verbatim>\<open>TypeError\<close> on it: nothing is serialized.
\<close>

theorem convert_motor_state_json_counterexample:
  "convert_motor_state np_reject example_state = Inr example_output \<and>
   json_dumps example_output = Inl TypeError"
  by (simp add: example_converts) (simp add: example_output_def)

text \<open>
  Claim C2, amended. For every state with valid poses, \<^verbatim>\<open>convert_motor_state\<close> returns
  a mapping of numeric sequences only: lists of floats (the rotations) and numpy float
  arrays (the positions), in nested dictionaries, with no vector or quaternion object
  left. The standard JSON encoder rejects the arrays, so it rejects the output of every
  state that has an agent; once each array is replaced by the list of its elements
  (\<^verbatim>\<open>ndarray.tolist\<close>), serializing to JSON and deserializing yields that structure
  again.
\<close>

theorem convert_motor_state_numeric:
  assumes "valid_state s"
  shows "\<exists>out j.
     convert_motor_state nd s = Inr out \<and> numeric_mapping out \<and>
     (s \<noteq> [] \<longrightarrow> json_dumps out = Inl TypeError) \<and>
     json_dumps (ndarray_tolist out) = Inr j \<and> json_loads j = ndarray_tolist out"
proof -
  from valid_state_converts [OF assms] obtain d
    where c: "convert_motor_state nd s = Inr (PyDict d)" by blast
  from valid_state_numeric [OF assms c] have n: "numeric_mapping (PyDict d)" .
  from numeric_mapping_roundtrip [OF n] obtain j where
    "json_dumps (ndarray_tolist (PyDict d)) = Inr j" "json_loads j = ndarray_tolist (PyDict d)"
    by blast
  with c n valid_state_not_json [OF assms _ c] show ?thesis by blast
qed

theorem convert_motor_state_numeric_example:
  "valid_state example_state \<and>
   (\<exists>out j.
      convert_motor_state np_reject example_state = Inr out \<and> numeric_mapping out \<and>
      json_dumps out = Inl TypeError \<and>
      json_dumps (ndarray_tolist out) = Inr j \<and> json_loads j = ndarray_tolist out)"
proof -
  have v: "valid_state example_state"
    by (simp add: valid_state_def valid_agent_def valid_sensor_def example_state_def
        example_agent_def example_sensor_def)
  have "example_state \<noteq> []" by (simp add: example_state_def)
  with convert_motor_state_numeric [OF v, of np_reject] v show ?thesis by blast
qed

text \<open>
  Claim C5, as stated: the conversion fails with a type error whenever a position does
  not iterate to exactly three numeric components, and never silently accepts such an
  input. A position that is a list of two floats is converted without any error, into
  an array of two elements.
\<close>

theorem convert_motor_state_two_components:
  "AgentState.position (snd (hd two_component_state)) = PyList [PyFloat 1, PyFloat 2] \<and>
   convert_motor_state np_reject two_component_state =
     Inr (PyDict
           [(''agent_id_0'',
             PyDict
              [(''position'', NdArray [1, 2]),
               (''rotation'', PyList [PyFloat 0, PyFloat 0, PyFloat 0, PyFloat 1]),
               (''sensors'',
                PyDict
                 [(''sensor_id_0'',
                   PyDict
                    [(''position'', NdArray [0, 1 / 10, 0]),
                     (''rotation'', PyList [PyFloat 1, PyFloat 0, PyFloat 0, PyFloat 0])])])])])"
  by (simp add: two_component_converts) (simp add: two_component_state_def)

text \<open>
  Claim C5, amended. \<^verbatim>\<open>convert_motor_state\<close> raises whenever the position of some agent
  or sensor does not support iteration, or its rotation has no attribute \<^verbatim>\<open>real\<close> or
  \<^verbatim>\<open>imag\<close>, or an \<^verbatim>\<open>imag\<close> that does not support iteration. The exception of the
  call is that of the first pose that raises, in the order of evaluation: the agents in
  the order of their keys, for each agent its sensors in the order of their keys and
  then the agent itself, the position before the rotation. A pose whose position does
  not support iteration raises \<^verbatim>\<open>TypeError\<close>. A pose whose position iterates to floats
  raises \<^verbatim>\<open>AttributeError\<close> when its rotation has no \<^verbatim>\<open>real\<close> or \<^verbatim>\<open>imag\<close>,
  \<^verbatim>\<open>TypeError\<close> when the \<^verbatim>\<open>imag\<close> does not support iteration, and nothing otherwise:
  the number of components, of the position and of \<^verbatim>\<open>imag\<close>, is not checked. What
  components that are not floats raise is numpy's and is left open.
\<close>

theorem convert_motor_state_raises:
  "exception_of (convert_motor_state nd s) =
     first_exception (map (pose_exception nd) (state_poses s)) \<and>
   (\<not> iterable p \<longrightarrow> pose_exception nd (p, r) = Some TypeError) \<and>
   (float_components p \<and> \<not> has_real_imag r \<longrightarrow>
      pose_exception nd (p, r) = Some AttributeError) \<and>
   (float_components p \<and> has_real_imag r \<and> \<not> imag_iterable r \<longrightarrow>
      pose_exception nd (p, r) = Some TypeError) \<and>
   (float_components p \<and> has_real_imag r \<and> imag_iterable r \<longrightarrow>
      pose_exception nd (p, r) = None) \<and>
   (map_of s agent_id = Some a \<and>
    (malformed_pose (AgentState.position a) (AgentState.rotation a) \<or>
     (\<exists>sensor_id ss. map_of (AgentState.sensors a) sensor_id = Some ss \<and>
        malformed_pose (SensorState.position ss) (SensorState.rotation ss))) \<longrightarrow>
    (\<exists>e. convert_motor_state nd s = Inl e)) \<and>
   (malformed_pose p r \<longleftrightarrow> \<not> iterable p \<or> \<not> has_real_imag r \<or> \<not> imag_iterable r)"
proof (intro conjI impI)
  show "malformed_pose p r \<longleftrightarrow> \<not> iterable p \<or> \<not> has_real_imag r \<or> \<not> imag_iterable r"
    by (simp add: malformed_pose_def decomposes_iff)
next
  show "exception_of (convert_motor_state nd s) =
     first_exception (map (pose_exception nd) (state_poses s))"
    by (rule convert_motor_state_exception)
next
  assume "\<not> iterable p"
  then show "pose_exception nd (p, r) = Some TypeError" by (rule not_iterable_exception)
next
  assume "float_components p \<and> \<not> has_real_imag r"
  then show "pose_exception nd (p, r) = Some AttributeError"
    by (simp add: float_components_exception no_real_imag_exception)
next
  assume "float_components p \<and> has_real_imag r \<and> \<not> imag_iterable r"
  then show "pose_exception nd (p, r) = Some TypeError"
    by (simp add: float_components_exception imag_not_iterable_exception)
next
  assume "float_components p \<and> has_real_imag r \<and> imag_iterable r"
  then show "pose_exception nd (p, r) = None"
    by (simp add: float_components_exception decomposes_exception)
next
  assume h: "map_of s agent_id = Some a \<and>
    (malformed_pose (AgentState.position a) (AgentState.rotation a) \<or>
     (\<exists>sensor_id ss. map_of (AgentState.sensors a) sensor_id = Some ss \<and>
        malformed_pose (SensorState.position ss) (SensorState.rotation ss)))"
  then have m: "map_of s agent_id = Some a" by simp
  from h malformed_agent_record [of a nd] obtain e where "agent_record nd a = Inl e" by blast
  with keys_map_of [OF m] m have "\<exists>e'. dict_build (agent_record nd) s (dict_keys s) [] = Inl e'"
    by (rule dict_build_fails)
  then show "\<exists>e. convert_motor_state nd s = Inl e" by (auto simp: convert_motor_state_build)
qed

theorem convert_motor_state_raises_example:
  "state_poses two_defects_state =
     [(Vector3 0 (1 / 10) 0, PyNone), (PyNone, Quaternion 0 0 0 1)] \<and>
   convert_motor_state np_reject two_defects_state = Inl AttributeError \<and>
   \<not> iterable PyNone \<and>
   pose_exception np_reject (PyNone, Quaternion 0 0 0 1) = Some TypeError \<and>
   float_components (Vector3 0 (1 / 10) 0) \<and> \<not> has_real_imag PyNone \<and>
   pose_exception np_reject (Vector3 0 (1 / 10) 0, PyNone) = Some AttributeError \<and>
   has_real_imag (PyFloat 1) \<and> \<not> imag_iterable (PyFloat 1) \<and>
   pose_exception np_reject (Vector3 0 (1 / 10) 0, PyFloat 1) = Some TypeError \<and>
   float_components (PyList [PyFloat 1, PyFloat 2]) \<and>
   has_real_imag (Quaternion 0 0 0 1) \<and> imag_iterable (Quaternion 0 0 0 1) \<and>
   pose_exception np_reject (PyList [PyFloat 1, PyFloat 2], Quaternion 0 0 0 1) = None \<and>
   malformed_pose PyNone (Quaternion 0 0 0 1) \<and>
   (\<exists>e. convert_motor_state np_reject none_position_state = Inl e)"
proof -
  have poses: "state_poses two_defects_state =
     [(Vector3 0 (1 / 10) 0, PyNone), (PyNone, Quaternion 0 0 0 1)]"
    by (simp add: state_poses_def agent_poses_def dict_values_def dict_keys_def map_filter_simps
        two_defects_state_def example_agent_def example_sensor_def)
  have i: "\<not> iterable PyNone" by (simp add: iterable_def)
  have f: "float_components (Vector3 0 (1 / 10) 0)" "float_components (PyList [PyFloat 1, PyFloat 2])"
    by (simp_all add: float_components_def)
  have h: "\<not> has_real_imag PyNone" "has_real_imag (PyFloat 1)" "has_real_imag (Quaternion 0 0 0 1)"
    by (simp_all add: has_real_imag_def)
  have m: "\<not> imag_iterable (PyFloat 1)" "imag_iterable (Quaternion 0 0 0 1)"
    by (simp_all add: imag_iterable_def iterable_def)
  have mp: "malformed_pose PyNone (Quaternion 0 0 0 1)"
    by (simp add: malformed_pose_def iterable_def)
  have ma: "map_of none_position_state ''agent_id_0'' =
      Some (example_agent\<lparr>AgentState.position := PyNone\<rparr>)"
    by (simp add: none_position_state_def)
  note t = convert_motor_state_raises
  from t [of np_reject two_defects_state PyNone "Quaternion 0 0 0 1"] i
  have e1: "pose_exception np_reject (PyNone, Quaternion 0 0 0 1) = Some TypeError" by simp
  from t [of np_reject two_defects_state "Vector3 0 (1 / 10) 0" PyNone] f h
  have e2: "pose_exception np_reject (Vector3 0 (1 / 10) 0, PyNone) = Some AttributeError" by simp
  from t [of np_reject two_defects_state "Vector3 0 (1 / 10) 0" "PyFloat 1"] f h m
  have e3: "pose_exception np_reject (Vector3 0 (1 / 10) 0, PyFloat 1) = Some TypeError" by simp
  from t [of np_reject two_defects_state "PyList [PyFloat 1, PyFloat 2]" "Quaternion 0 0 0 1"] f h m
  have e4: "pose_exception np_reject (PyList [PyFloat 1, PyFloat 2], Quaternion 0 0 0 1) = None"
    by simp
  from t [of np_reject two_defects_state] poses e1 e2
  have "exception_of (convert_motor_state np_reject two_defects_state) = Some AttributeError"
    by simp
  then have c: "convert_motor_state np_reject two_defects_state = Inl AttributeError"
    by (cases "convert_motor_state np_reject two_defects_state") (simp_all add: exception_of_def)
  from t [of np_reject none_position_state _ _ "''agent_id_0''"
      "example_agent\<lparr>AgentState.position := PyNone\<rparr>"] ma mp
  have r: "\<exists>e. convert_motor_state np_reject none_position_state = Inl e"
    by (simp add: example_agent_def)
  from poses c i e1 f h e2 m e3 e4 mp r show ?thesis by simp
qed



text \<open>
  Claim C10. The output of \<^verbatim>\<open>convert_motor_state\<close> does not depend on
  \<^verbatim>\<open>motor_only_step\<close>: two states that are equal except for the flags of their
  \<^verbatim>\<open>AgentState\<close> entries give equal outcomes: the flag is dropped by the conversion.
\<close>

theorem convert_motor_state_ignores_flag:
  assumes "equal_except_flags s1 s2"
  shows "convert_motor_state nd s1 = convert_motor_state nd s2"
proof -
  from assms have
    "list_all2 (\<lambda>p q. fst p = fst q \<and> agent_record nd (snd p) = agent_record nd (snd q)) s1 s2"
    unfolding equal_except_flags_def
    by (rule list_all2_mono) (auto dest: agent_record_same_pose_data)
  then have "dict_build (agent_record nd) s1 (dict_keys s1) [] =
      dict_build (agent_record nd) s2 (dict_keys s1) []"
    by (rule dict_build_related)
  with equal_except_flags_keys [OF assms] show ?thesis
    by (simp add: convert_motor_state_build)
qed

theorem convert_motor_state_ignores_flag_example:
  "equal_except_flags example_state example_flagged \<and>
   example_state \<noteq> example_flagged \<and>
   convert_motor_state np_reject example_state = convert_motor_state np_reject example_flagged"
proof -
  have e: "equal_except_flags example_state example_flagged"
    by (simp add: equal_except_flags_def same_pose_data_def example_state_def example_flagged_def)
  have "example_state \<noteq> example_flagged"
    by (simp add: example_state_def example_flagged_def example_agent_def)
  with e convert_motor_state_ignores_flag [OF e, of np_reject] show ?thesis by simp
qed

text \<open>
  Claim C7, on the contract as the specification describes it. After every sequence of
  operations on a simulator that has not been closed, \<^verbatim>\<open>reset()\<close> yields the backend
  in its initial configuration and returns the initial observations, as a reset of a
  freshly constructed simulator does. An open backend is in one of two macro-states,
  and \<^verbatim>\<open>reset()\<close> is the only operation that takes it from active back to
  uninitialized-or-reset. \<^verbatim>\<open>close()\<close> is terminal: on a closed simulator no operation
  changes anything, and \<^verbatim>\<open>reset\<close>, \<^verbatim>\<open>apply_action\<close>, the set-up operations and the
  query of the observations fail instead of returning stale observations.
\<close>

theorem reset_initial_configuration:
  "(Close \<notin> set ops \<longrightarrow>
      reset b (run b ops (new_simulator b)) =
        Inr (observe b (initial_configuration b), new_simulator b) \<and>
      reset b (run b ops (new_simulator b)) = reset b (new_simulator b)) \<and>
   (macro sim = Uninitialized_or_reset \<or> macro sim = Active) \<and>
   (macro sim = Active \<and> macro (perform b op sim) = Uninitialized_or_reset \<longrightarrow> op = Reset) \<and>
   closed (close sim) \<and>
   (closed sim \<longrightarrow>
      perform b op sim = sim \<and>
      reset b sim = Inl Simulator_closed \<and>
      apply_action b a sim = Inl Simulator_closed \<and>
      object_setup b u sim = Inl Simulator_closed \<and>
      observations b sim = Inl Simulator_closed)"
proof (intro conjI impI)
  have fresh: "\<not> closed (new_simulator b)" by (simp add: new_simulator_def)
  assume ops: "Close \<notin> set ops"
  from run_not_closed [OF ops fresh]
  show r: "reset b (run b ops (new_simulator b)) =
        Inr (observe b (initial_configuration b), new_simulator b)"
    by (rule reset_open)
  from fresh have "reset b (new_simulator b) =
        Inr (observe b (initial_configuration b), new_simulator b)"
    by (rule reset_open)
  with r show "reset b (run b ops (new_simulator b)) = reset b (new_simulator b)" by simp
next
  show "macro sim = Uninitialized_or_reset \<or> macro sim = Active"
    by (cases "macro sim") simp_all
next
  assume "macro sim = Active \<and> macro (perform b op sim) = Uninitialized_or_reset"
  then show "op = Reset" by (blast intro: perform_to_reset)
next
  show "closed (close sim)" by (simp add: close_def)
next
  assume c: "closed sim"
  then show "perform b op sim = sim" by (rule perform_on_closed)
  from c show "reset b sim = Inl Simulator_closed" by (rule closed_operations_fail)
  from c show "apply_action b a sim = Inl Simulator_closed" by (rule closed_operations_fail)
  from c show "object_setup b u sim = Inl Simulator_closed" by (rule closed_operations_fail)
  from c show "observations b sim = Inl Simulator_closed" by (rule closed_operations_fail)
qed

theorem reset_initial_configuration_example:
  "Close \<notin> set counting_operations \<and>
   environment (run counting_backend counting_operations (new_simulator counting_backend)) = 3 \<and>
   macro (run counting_backend counting_operations (new_simulator counting_backend)) = Active \<and>
   reset counting_backend (run counting_backend counting_operations (new_simulator counting_backend)) =
     Inr (0, new_simulator counting_backend) \<and>
   closed (close (new_simulator counting_backend)) \<and>
   apply_action counting_backend 1 (close (new_simulator counting_backend)) = Inl Simulator_closed"
proof -
  have c: "Close \<notin> set counting_operations" by (simp add: counting_operations_def)
  have r: "run counting_backend counting_operations (new_simulator counting_backend) =
      \<lparr>environment = 3, macro = Active, closed = False\<rparr>"
    by (simp add: counting_operations_def counting_backend_def new_simulator_def
        apply_action_def object_setup_def reset_def)
  have k: "closed (close (new_simulator counting_backend))" by (simp add: close_def)
  from reset_initial_configuration
    [of counting_operations counting_backend "close (new_simulator counting_backend)" _ 1] c k
  have "reset counting_backend (run counting_backend counting_operations (new_simulator counting_backend)) =
     Inr (observe counting_backend (initial_configuration counting_backend), new_simulator counting_backend)"
    and "apply_action counting_backend 1 (close (new_simulator counting_backend)) = Inl Simulator_closed"
    by simp_all
  with c r k show ?thesis by (simp add: counting_backend_def)
qed

end
